theory Spec2Isabelle
  imports Complex_Main
begin

section \<open>Python values used by the two services\<close>

text \<open>
  The repository holds two Flask services: \<^verbatim>\<open>api_principal/app.py\<close> (the pipeline
  and the record API) and \<^verbatim>\<open>api_secundaria/app.py\<close> (the distance delegate). The
  distance delegate computes with IEEE-754 doubles and the functions of the platform's
  mathematics library; it appears here only as the remote service that the pipeline
  calls.

  The services exchange JSON, so the values that flow through them are modelled by one
  datatype of parsed JSON. A Python \<^verbatim>\<open>str\<close> is a \<open>string\<close> whose characters are the
  code points below 256 and a Python \<^verbatim>\<open>int\<close> is an \<open>int\<close>. A parsed JSON object is
  an association list read with \<open>map_of\<close>.

  A Python \<^verbatim>\<open>float\<close> is a double: \<open>Double r\<close> is the finite double whose value is
  the real \<open>r\<close>, and there are the two infinities and NaN (the JSON parser of Python
  reads \<^verbatim>\<open>1e400\<close> as infinity and accepts the literals \<^verbatim>\<open>Infinity\<close> and
  \<^verbatim>\<open>NaN\<close>). The principal API computes nothing with floats: it gets them from
  \<^verbatim>\<open>float\<close> (of a text, which is left to the environment, or of an integer), passes
  them on and stores them, and rounds one of them for its reply (left to the
  environment as well).
\<close>

datatype pyfloat =
    Double real
  | Inf_pos
  | Inf_neg
  | NaN

datatype json =
    JNull
  | JBool bool
  | JInt int
  | JFloat pyfloat
  | JStr string
  | JArr "json list"
  | JObj "(string \<times> json) list"

text \<open>Python truthiness, as \<^verbatim>\<open>if x\<close>, \<^verbatim>\<open>not x\<close> and \<^verbatim>\<open>x or y\<close> use it.\<close>

fun truthy :: "json \<Rightarrow> bool" where
  "truthy JNull = False"
| "truthy (JBool b) = b"
| "truthy (JInt n) = (n \<noteq> 0)"
| "truthy (JFloat f) = (f \<noteq> Double 0)"
| "truthy (JStr s) = (s \<noteq> [])"
| "truthy (JArr xs) = (xs \<noteq> [])"
| "truthy (JObj kvs) = (kvs \<noteq> [])"

definition py_or :: "json \<Rightarrow> json \<Rightarrow> json" where
  "py_or a b = (if truthy a then a else b)"

text \<open>
  The exceptions the code can meet. \<open>ValueError\<close> carries which message it was raised
  with, since the pipeline endpoint reports \<^verbatim>\<open>str(ve)\<close>:
  \<^item> \<open>ViaCEP_HTTP n\<close> is \<^verbatim>\<open>f"ViaCEP HTTP {r.status_code}"\<close>;
  \<^item> \<open>CEP_invalido\<close> is the message raised when ViaCEP flags \<^verbatim>\<open>erro\<close>;
  \<^item> \<open>Nao_geocodificado\<close> is the message raised at the end of \<^verbatim>\<open>geocode_osm\<close>;
  \<^item> \<open>JSONDecode\<close> is raised by \<^verbatim>\<open>Response.json()\<close> on a body that is not JSON
    (a subclass of \<^verbatim>\<open>ValueError\<close>, and \<^verbatim>\<open>except ValueError\<close> comes first);
  \<^item> \<open>Float_invalido\<close> is raised by \<^verbatim>\<open>float(s)\<close> on a string that is no number;
  \<^item> \<open>Int_invalido\<close> is raised by \<^verbatim>\<open>int(s)\<close> on a string that is no integer.
  \<open>RequestException\<close> stands for every exception of \<^verbatim>\<open>requests\<close> (timeout,
  connection error, and the \<^verbatim>\<open>HTTPError\<close> of \<^verbatim>\<open>raise_for_status\<close>).
  \<open>OverflowError\<close> is raised by \<^verbatim>\<open>float(n)\<close> on an integer beyond the doubles and
  by \<^verbatim>\<open>sqlite3\<close> on an integer parameter beyond 64 bits. The other three exceptions
  of \<^verbatim>\<open>sqlite3\<close> are \<open>SqliteBindError\<close> (a parameter of a type that cannot be
  bound), \<open>IntegrityError\<close> (a NULL for a column that is \<^verbatim>\<open>NOT NULL\<close>) and
  \<open>SqliteFull\<close> (no identifier is left for a new row).
\<close>

datatype valmsg =
    ViaCEP_HTTP nat
  | CEP_invalido
  | Nao_geocodificado
  | JSONDecode
  | Float_invalido
  | Int_invalido

datatype exc =
    ValueError valmsg
  | RequestException
  | TypeError
  | AttributeError
  | KeyError
  | IndexError
  | OverflowError
  | SqliteBindError
  | IntegrityError
  | SqliteFull

definition try_bind :: "exc + 'a \<Rightarrow> ('a \<Rightarrow> exc + 'b) \<Rightarrow> exc + 'b" where
  "try_bind m f = (case m of Inl e \<Rightarrow> Inl e | Inr x \<Rightarrow> f x)"

text \<open>
  \<^verbatim>\<open>d.get(k, default)\<close>: only a dict has \<^verbatim>\<open>get\<close>; a key that is present with
  the value null gives null, not the default. \<^verbatim>\<open>d.get(k)\<close> is \<open>dict_get d k JNull\<close>.
\<close>

fun dict_get :: "json \<Rightarrow> string \<Rightarrow> json \<Rightarrow> exc + json" where
  "dict_get (JObj kvs) k d = Inr (case map_of kvs k of None \<Rightarrow> d | Some v \<Rightarrow> v)"
| "dict_get _ k d = Inl AttributeError"

subsection \<open>Strings\<close>

text \<open>
  \<^verbatim>\<open>str.isspace\<close> on the code points below 256: TAB, LF, VT, FF, CR, the four
  separators 0x1C..0x1F, SPACE, NEL (0x85) and NBSP (0xA0).
\<close>

definition isspace :: "char \<Rightarrow> bool" where
  "isspace c = ((of_char c :: nat) \<in> set [9, 10, 11, 12, 13, 28, 29, 30, 31, 32, 133, 160])"

definition strip :: "string \<Rightarrow> string" where
  "strip s = rev (dropWhile isspace (rev (dropWhile isspace s)))"

text \<open>\<^verbatim>\<open>s.replace("-", "")\<close>.\<close>

definition remove_hyphens :: "string \<Rightarrow> string" where
  "remove_hyphens s = filter (\<lambda>c. c \<noteq> CHR ''-'') s"

text \<open>
  \<^verbatim>\<open>s.split(",")\<close>: the pieces between the separators, empty pieces kept, so the
  result always has one piece more than the string has separators.
\<close>

fun split_acc :: "char \<Rightarrow> string \<Rightarrow> string \<Rightarrow> string list" where
  "split_acc sep acc [] = [rev acc]"
| "split_acc sep acc (c # cs) =
     (if c = sep then rev acc # split_acc sep [] cs else split_acc sep (c # acc) cs)"

definition py_split :: "char \<Rightarrow> string \<Rightarrow> string list" where
  "py_split sep s = split_acc sep [] s"

text \<open>\<^verbatim>\<open>sep.join(xs)\<close> on strings.\<close>

fun join_str :: "string \<Rightarrow> string list \<Rightarrow> string" where
  "join_str sep [] = []"
| "join_str sep [x] = x"
| "join_str sep (x # y # ys) = x @ sep @ join_str sep (y # ys)"

text \<open>
  \<^verbatim>\<open>sep.join(xs)\<close> on Python values: a \<^verbatim>\<open>TypeError\<close> when an item is not a
  \<^verbatim>\<open>str\<close>.
\<close>

fun strs_of :: "json list \<Rightarrow> exc + string list" where
  "strs_of [] = Inr []"
| "strs_of (JStr s # xs) = try_bind (strs_of xs) (\<lambda>ss. Inr (s # ss))"
| "strs_of (_ # xs) = Inl TypeError"

definition py_join :: "string \<Rightarrow> json list \<Rightarrow> exc + string" where
  "py_join sep xs = try_bind (strs_of xs) (\<lambda>ss. Inr (join_str sep ss))"

text \<open>\<^verbatim>\<open>xs[-3:]\<close>: the last three items, or all of them when there are fewer.\<close>

definition last3 :: "'a list \<Rightarrow> 'a list" where
  "last3 xs = drop (length xs - 3) xs"

section \<open>The query builder\<close>

text \<open>
  \<^verbatim>\<open>
  def endereco_para_query(endereco: dict) -> str:
      logradouro = endereco.get("logradouro") or ""
      bairro = endereco.get("bairro") or ""
      localidade = endereco.get("localidade") or ""
      uf = endereco.get("uf") or ""
      componentes = [logradouro, bairro, localidade, uf, "Brazil"]
      return ", ".join([c for c in componentes if c])
  \<close>
\<close>

definition endereco_para_query :: "json \<Rightarrow> exc + string" where
  "endereco_para_query endereco =
     try_bind (dict_get endereco ''logradouro'' JNull) (\<lambda>v1.
     try_bind (dict_get endereco ''bairro'' JNull) (\<lambda>v2.
     try_bind (dict_get endereco ''localidade'' JNull) (\<lambda>v3.
     try_bind (dict_get endereco ''uf'' JNull) (\<lambda>v4.
       let logradouro = py_or v1 (JStr '''');
           bairro = py_or v2 (JStr '''');
           localidade = py_or v3 (JStr '''');
           uf = py_or v4 (JStr '''');
           componentes = [logradouro, bairro, localidade, uf, JStr ''Brazil'']
       in py_join '', '' (filter truthy componentes)))))"

section \<open>The world outside the process\<close>

text \<open>
  The pipeline talks to three remote services through \<^verbatim>\<open>requests\<close>: ViaCEP (a GET
  whose URL holds the postal code), Nominatim (a GET whose parameter \<^verbatim>\<open>q\<close> is the
  query; the other parameters and the headers are constants) and the secondary API
  (a POST whose JSON body holds the two coordinate pairs). A call either raises (no
  response within the timeout, connection refused, ...) or gives a response with a
  status code and a body; \<open>Response s None\<close> is a body that \<^verbatim>\<open>Response.json()\<close>
  cannot parse. A request that \<^verbatim>\<open>requests\<close> refuses to send (a version of it
  that does not encode a NaN or an infinity in a JSON body) raises like one that gets
  no response.
\<close>

datatype request =
    ViaCEP_GET string
  | Nominatim_GET string
  | Secundaria_POST pyfloat pyfloat pyfloat pyfloat

datatype response =
    NoResponse
  | Response nat "json option"

text \<open>
  What the code does not decide is a parameter of the model:
  \<^item> \<open>remote n rq\<close> is what the network answers to \<open>rq\<close> when it is the external
    call number \<open>n\<close> of the request being served (counted from 0), so the same query
    may be answered differently the second time;
  \<^item> \<open>utcnow\<close> is \<^verbatim>\<open>datetime.utcnow().isoformat(timespec="seconds") + "Z"\<close>;
  \<^item> \<open>str_other\<close> is Python's \<^verbatim>\<open>str\<close> on a value that is not a \<^verbatim>\<open>str\<close>;
  \<^item> \<open>float_str\<close> and \<open>int_str\<close> are Python's \<^verbatim>\<open>float\<close> and \<^verbatim>\<open>int\<close> on a
    \<^verbatim>\<open>str\<close>, \<open>None\<close> where they raise \<^verbatim>\<open>ValueError\<close>;
  \<^item> \<open>round3\<close> is Python's \<^verbatim>\<open>round(x, 3)\<close> on a \<^verbatim>\<open>float\<close>;
  \<^item> \<open>sqlite_text\<close> is the text SQLite stores when a number is written to a column of
    TEXT affinity.
\<close>

record env =
  remote :: "nat \<Rightarrow> request \<Rightarrow> response"
  utcnow :: string
  str_other :: "json \<Rightarrow> string"
  float_str :: "string \<Rightarrow> pyfloat option"
  int_str :: "string \<Rightarrow> int option"
  round3 :: "pyfloat \<Rightarrow> pyfloat"
  sqlite_text :: "json \<Rightarrow> string"

text \<open>
  One external call: the list of the calls made so far is the state that is passed
  along, and the call is added to it whether it succeeds or not.
\<close>

definition requests_call :: "env \<Rightarrow> request \<Rightarrow> request list \<Rightarrow> response \<times> request list" where
  "requests_call E rq calls = (remote E (length calls) rq, calls @ [rq])"

definition py_str :: "env \<Rightarrow> json \<Rightarrow> string" where
  "py_str E v = (case v of JStr s \<Rightarrow> s | _ \<Rightarrow> str_other E v)"

text \<open>
  \<^verbatim>\<open>float(n)\<close> on an \<^verbatim>\<open>int\<close>: the nearest double, which is \<open>n\<close> itself when it
  has at most 53 significant bits and otherwise \<open>n\<close> rounded to 53 significant bits, a
  tie going to the even one; an \<^verbatim>\<open>OverflowError\<close> when that is 2 to the power 1024
  or more.
\<close>

fun bit_length :: "nat \<Rightarrow> nat" where
  "bit_length n = (if n = 0 then 0 else Suc (bit_length (n div 2)))"

definition round_to_53 :: "nat \<Rightarrow> nat" where
  "round_to_53 m =
     (let sh = bit_length m - 53; q = m div 2 ^ sh; r = m mod 2 ^ sh
      in if sh = 0 then m
         else if 2 * r < 2 ^ sh \<or> (2 * r = 2 ^ sh \<and> even q) then q * 2 ^ sh
         else (q + 1) * 2 ^ sh)"

definition float_int :: "int \<Rightarrow> exc + pyfloat" where
  "float_int n =
     (let m = round_to_53 (nat \<bar>n\<bar>)
      in if 2 ^ 1024 \<le> m then Inl OverflowError
         else Inr (Double (if n < 0 then - real m else real m)))"

text \<open>
  \<^verbatim>\<open>float(v)\<close>: a float is taken as it is, an integer is converted, a bool is 1.0
  or 0.0, a string is parsed (\<^verbatim>\<open>ValueError\<close> when it is no number; the texts
  \<^verbatim>\<open>nan\<close> and \<^verbatim>\<open>inf\<close> are numbers), anything else is a \<^verbatim>\<open>TypeError\<close>.
\<close>

fun py_float :: "env \<Rightarrow> json \<Rightarrow> exc + pyfloat" where
  "py_float E (JInt n) = float_int n"
| "py_float E (JFloat f) = Inr f"
| "py_float E (JBool b) = Inr (Double (if b then 1 else 0))"
| "py_float E (JStr s) =
     (case float_str E s of None \<Rightarrow> Inl (ValueError Float_invalido) | Some f \<Rightarrow> Inr f)"
| "py_float E JNull = Inl TypeError"
| "py_float E (JArr xs) = Inl TypeError"
| "py_float E (JObj kvs) = Inl TypeError"

text \<open>
  \<^verbatim>\<open>x[0]\<close> and \<^verbatim>\<open>x["key"]\<close>. On a dict, \<^verbatim>\<open>x[0]\<close> looks up the key 0, which no
  parsed JSON object has.
\<close>

fun index0 :: "json \<Rightarrow> exc + json" where
  "index0 (JArr []) = Inl IndexError"
| "index0 (JArr (x # xs)) = Inr x"
| "index0 (JStr []) = Inl IndexError"
| "index0 (JStr (c # cs)) = Inr (JStr [c])"
| "index0 (JObj kvs) = Inl KeyError"
| "index0 _ = Inl TypeError"

fun subscript :: "json \<Rightarrow> string \<Rightarrow> exc + json" where
  "subscript (JObj kvs) k = (case map_of kvs k of None \<Rightarrow> Inl KeyError | Some v \<Rightarrow> Inr v)"
| "subscript _ k = Inl TypeError"

text \<open>\<^verbatim>\<open>request.get_json(silent=True) or {}\<close>; \<open>None\<close> is a body that is absent or not JSON.\<close>

definition json_or_empty :: "json option \<Rightarrow> json" where
  "json_or_empty req = (case req of None \<Rightarrow> JObj [] | Some j \<Rightarrow> py_or j (JObj []))"

section \<open>The address resolver\<close>

text \<open>
  \<^verbatim>\<open>
  def via_cep(cep: str) -> dict:
      cep = cep.replace("-", "").strip()
      url = f"https://viacep.com.br/ws/{cep}/json/"
      r = requests.get(url, timeout=10)
      if r.status_code != 200:
          raise ValueError(f"ViaCEP HTTP {r.status_code}")
      data = r.json()
      if data.get("erro"):
          raise ValueError("CEP invalido no ViaCEP")
      return data
  \<close>
\<close>

definition via_cep :: "env \<Rightarrow> string \<Rightarrow> request list \<Rightarrow> (exc + json) \<times> request list" where
  "via_cep E cep calls =
     (let cep' = strip (remove_hyphens cep) in
      case requests_call E (ViaCEP_GET cep') calls of
        (NoResponse, calls') \<Rightarrow> (Inl RequestException, calls')
      | (Response status body, calls') \<Rightarrow>
          if status \<noteq> 200 then (Inl (ValueError (ViaCEP_HTTP status)), calls')
          else (case body of
                  None \<Rightarrow> (Inl (ValueError JSONDecode), calls')
                | Some data \<Rightarrow>
                    (case dict_get data ''erro'' JNull of
                       Inl e \<Rightarrow> (Inl e, calls')
                     | Inr flag \<Rightarrow>
                         if truthy flag then (Inl (ValueError CEP_invalido), calls')
                         else (Inr data, calls'))))"

section \<open>The geocoder\<close>

text \<open>
  The inner function of \<^verbatim>\<open>geocode_osm\<close>:
  \<^verbatim>\<open>
  def _search(q: str):
      params = {"q": q, "format": "json", "limit": 1, "addressdetails": 0, "countrycodes": "br"}
      resp = requests.get("https://nominatim.openstreetmap.org/search", params=params,
                          headers=headers, timeout=15)
      resp.raise_for_status()
      items = resp.json()
      if not items:
          return None
      return float(items[0]["lat"]), float(items[0]["lon"])
  \<close>
  \<^verbatim>\<open>raise_for_status\<close> raises for the statuses 400 to 599.
\<close>

definition coords_of :: "env \<Rightarrow> json \<Rightarrow> exc + pyfloat \<times> pyfloat" where
  "coords_of E items =
     try_bind (index0 items) (\<lambda>i1.
     try_bind (subscript i1 ''lat'') (\<lambda>v1.
     try_bind (py_float E v1) (\<lambda>lat.
     try_bind (index0 items) (\<lambda>i2.
     try_bind (subscript i2 ''lon'') (\<lambda>v2.
     try_bind (py_float E v2) (\<lambda>lon. Inr (lat, lon)))))))"

definition search ::
  "env \<Rightarrow> string \<Rightarrow> request list \<Rightarrow> (exc + (pyfloat \<times> pyfloat) option) \<times> request list" where
  "search E q calls =
     (case requests_call E (Nominatim_GET q) calls of
        (NoResponse, calls') \<Rightarrow> (Inl RequestException, calls')
      | (Response status body, calls') \<Rightarrow>
          if 400 \<le> status \<and> status < 600 then (Inl RequestException, calls')
          else (case body of
                  None \<Rightarrow> (Inl (ValueError JSONDecode), calls')
                | Some items \<Rightarrow>
                    if \<not> truthy items then (Inr None, calls')
                    else (try_bind (coords_of E items) (\<lambda>c. Inr (Some c)), calls')))"

text \<open>
  \<^verbatim>\<open>
      coords = _search(query)
      if coords:
          return coords
      partes = [p.strip() for p in query.split(",")]
      if len(partes) >= 3:
          cidade_uf = ", ".join(partes[-3:])
          coords = _search(cidade_uf)
          if coords:
              return coords
      raise ValueError("Nao foi possivel geocodificar o endereco informado.")
  \<close>
  A pair of coordinates is a tuple of two items, which is always truthy.
\<close>

definition partes_of :: "string \<Rightarrow> string list" where
  "partes_of query = map strip (py_split CHR '','' query)"

definition geocode_osm ::
  "env \<Rightarrow> string \<Rightarrow> request list \<Rightarrow> (exc + pyfloat \<times> pyfloat) \<times> request list" where
  "geocode_osm E query calls =
     (case search E query calls of
        (Inl e, calls1) \<Rightarrow> (Inl e, calls1)
      | (Inr (Some coords), calls1) \<Rightarrow> (Inr coords, calls1)
      | (Inr None, calls1) \<Rightarrow>
          (let partes = partes_of query in
           if length partes \<ge> 3 then
             (let cidade_uf = join_str '', '' (last3 partes) in
              case search E cidade_uf calls1 of
                (Inl e, calls2) \<Rightarrow> (Inl e, calls2)
              | (Inr (Some coords), calls2) \<Rightarrow> (Inr coords, calls2)
              | (Inr None, calls2) \<Rightarrow> (Inl (ValueError Nao_geocodificado), calls2))
           else (Inl (ValueError Nao_geocodificado), calls1)))"

section \<open>The record store\<close>

text \<open>
  The table \<^verbatim>\<open>consultas\<close> of the SQLite file: one record per row, in the order of
  insertion, and the counter that \<^verbatim>\<open>AUTOINCREMENT\<close> keeps (the largest identifier
  ever given). The file is taken to be always there and writable; what SQLite and the
  module \<^verbatim>\<open>sqlite3\<close> refuse is modelled.
  \<^verbatim>\<open>
  CREATE TABLE IF NOT EXISTS consultas (
      id INTEGER PRIMARY KEY AUTOINCREMENT,
      cep_origem TEXT NOT NULL, cep_destino TEXT NOT NULL,
      lat1 REAL NOT NULL, lon1 REAL NOT NULL, lat2 REAL NOT NULL, lon2 REAL NOT NULL,
      distancia_km REAL NOT NULL, criado_em TEXT NOT NULL, observacoes TEXT);
  \<close>
\<close>

record consulta =
  consulta_id :: nat
  cep_origem :: string
  cep_destino :: string
  lat1 :: pyfloat
  lon1 :: pyfloat
  lat2 :: pyfloat
  lon2 :: pyfloat
  distancia_km :: pyfloat
  criado_em :: string
  observacoes :: "string option"

record database =
  linhas :: "consulta list"
  seq :: nat

text \<open>
  Binding a Python \<^verbatim>\<open>int\<close> to a parameter of a statement: SQLite's integers have 64
  bits, and \<^verbatim>\<open>sqlite3\<close> raises an \<^verbatim>\<open>OverflowError\<close> for any other.
\<close>

definition bind_integer :: "int \<Rightarrow> exc + int" where
  "bind_integer n = (if - (2 ^ 63) \<le> n \<and> n < 2 ^ 63 then Inr n else Inl OverflowError)"

text \<open>
  Binding a Python value to the parameter of the column \<^verbatim>\<open>observacoes TEXT\<close>:
  \<^verbatim>\<open>None\<close> is NULL, a string is itself, a number (a bool is the integer 1 or 0) is
  stored as its text, but a NaN is stored as NULL, and a list or a dict cannot be bound.
\<close>

fun bind_text :: "env \<Rightarrow> json \<Rightarrow> exc + string option" where
  "bind_text E JNull = Inr None"
| "bind_text E (JStr s) = Inr (Some s)"
| "bind_text E (JBool b) = Inr (Some (sqlite_text E (JInt (if b then 1 else 0))))"
| "bind_text E (JInt n) = try_bind (bind_integer n) (\<lambda>n'. Inr (Some (sqlite_text E (JInt n'))))"
| "bind_text E (JFloat f) = Inr (if f = NaN then None else Some (sqlite_text E (JFloat f)))"
| "bind_text E (JArr xs) = Inl SqliteBindError"
| "bind_text E (JObj kvs) = Inl SqliteBindError"

text \<open>
  \<^verbatim>\<open>INSERT INTO consultas (...) VALUES (...)\<close> and \<^verbatim>\<open>cur.lastrowid\<close>. The new
  identifier is one more than the largest ever given; when that was the largest 64-bit
  integer no identifier is left and the insertion fails. A NaN is bound as NULL, which
  the five columns of type \<^verbatim>\<open>REAL NOT NULL\<close> refuse.
\<close>

definition next_id :: "database \<Rightarrow> nat" where
  "next_id d = Suc (fold max (map consulta_id (linhas d)) (seq d))"

definition insert_consulta :: "database \<Rightarrow> consulta \<Rightarrow> exc + nat \<times> database" where
  "insert_consulta d r =
     (let novo_id = next_id d
      in if 2 ^ 63 \<le> novo_id then Inl SqliteFull
         else if NaN \<in> set [lat1 r, lon1 r, lat2 r, lon2 r, distancia_km r] then Inl IntegrityError
         else Inr (novo_id, \<lparr>linhas = linhas d @ [r\<lparr>consulta_id := novo_id\<rparr>], seq = novo_id\<rparr>))"

text \<open>
  \<^verbatim>\<open>SELECT ... FROM consultas ORDER BY id DESC LIMIT ? OFFSET ?\<close>, with the two
  integers bound to its parameters. For SQLite a negative limit is no limit and a
  negative offset is no offset.
\<close>

definition select_page :: "database \<Rightarrow> int \<Rightarrow> int \<Rightarrow> exc + consulta list" where
  "select_page d n offs =
     try_bind (bind_integer n) (\<lambda>n'.
     try_bind (bind_integer offs) (\<lambda>offs'.
       let rest = drop (nat offs') (rev (sort_key consulta_id (linhas d)))
       in Inr (if n' < 0 then rest else take (nat n') rest)))"

text \<open>
  \<^verbatim>\<open>SELECT * FROM consultas WHERE id = ?\<close> with \<^verbatim>\<open>fetchone()\<close>, the identifier
  bound to its parameter.
\<close>

definition select_by_id :: "database \<Rightarrow> nat \<Rightarrow> exc + consulta option" where
  "select_by_id d i =
     try_bind (bind_integer (int i)) (\<lambda>i'. Inr (find (\<lambda>r. consulta_id r = i) (linhas d)))"

text \<open>
  \<^verbatim>\<open>UPDATE consultas SET observacoes = ? WHERE id = ?\<close> and \<^verbatim>\<open>cur.rowcount\<close>, the
  number of rows the statement matched; the notes are bound already, the identifier is
  bound here.
\<close>

definition update_observacoes :: "database \<Rightarrow> string option \<Rightarrow> nat \<Rightarrow> exc + nat \<times> database" where
  "update_observacoes d notes i =
     try_bind (bind_integer (int i)) (\<lambda>i'.
       Inr (length (filter (\<lambda>r. consulta_id r = i) (linhas d)),
            d\<lparr>linhas := map (\<lambda>r. if consulta_id r = i then r\<lparr>observacoes := notes\<rparr> else r)
                            (linhas d)\<rparr>))"

text \<open>\<^verbatim>\<open>DELETE FROM consultas WHERE id = ?\<close> and \<^verbatim>\<open>cur.rowcount\<close>.\<close>

definition delete_by_id :: "database \<Rightarrow> nat \<Rightarrow> exc + nat \<times> database" where
  "delete_by_id d i =
     try_bind (bind_integer (int i)) (\<lambda>i'.
       Inr (length (filter (\<lambda>r. consulta_id r = i) (linhas d)),
            d\<lparr>linhas := filter (\<lambda>r. consulta_id r \<noteq> i) (linhas d)\<rparr>))"

section \<open>The replies of the endpoints\<close>

text \<open>
  A reply is a status code and a payload. The messages of the error payloads are named
  rather than spelled out:
  \<^item> \<open>Informe_origem_destino\<close>: the payload \<^verbatim>\<open>{"erro": "Informe 'origem' e 'destino' (CEPs)."}\<close>;
  \<^item> \<open>Erro_valor m\<close>: \<^verbatim>\<open>{"erro": str(ve)}\<close> for the \<^verbatim>\<open>ValueError\<close> with message \<open>m\<close>;
  \<^item> \<open>Falha_API_Secundaria s\<close>: \<^verbatim>\<open>{"erro": "Falha ao calcular distancia na API Secundaria: HTTP s", "detalhes": r.text}\<close>;
  \<^item> \<open>Falha_servicos_externos\<close>: \<^verbatim>\<open>{"erro": "Falha ao consultar servicos externos.", "detalhes": str(re)}\<close>;
  \<^item> \<open>Erro_inesperado e\<close>: \<^verbatim>\<open>{"erro": f"Erro inesperado: {str(e)}"}\<close>;
  \<^item> \<open>Nao_encontrada\<close>: \<^verbatim>\<open>{"erro": "Consulta nao encontrada."}\<close>;
  \<^item> \<open>Nao_tratada e\<close>: the reply Flask gives when a view raises \<open>e\<close> and catches nothing.
  \<open>Criada r eo ed d obs\<close> is the enriched reply of the pipeline: the identifier, the
  postal codes, the coordinates and the timestamp are those of the stored record \<open>r\<close>,
  \<open>eo\<close> and \<open>ed\<close> are the two addresses, \<open>d\<close> is the distance rounded to three places
  and \<open>obs\<close> the notes as the request gave them. \<open>Lista n rs\<close> is
  \<^verbatim>\<open>{"total": n, "items": rs}\<close>, \<open>Registro r\<close> is the record \<open>r\<close> and \<open>Excluida i\<close> is
  \<^verbatim>\<open>{"status": "excluida", "id": i}\<close>.
\<close>

datatype payload =
    Informe_origem_destino
  | Erro_valor valmsg
  | Falha_API_Secundaria nat
  | Falha_servicos_externos
  | Erro_inesperado exc
  | Nao_encontrada
  | Nao_tratada exc
  | Criada consulta json json pyfloat json
  | Lista nat "consulta list"
  | Registro consulta
  | Excluida nat

section \<open>The pipeline endpoint\<close>

text \<open>
  The steps of \<^verbatim>\<open>distancia_por_cep\<close> pass the list of the external calls along;
  a step that raises ends the \<^verbatim>\<open>try\<close> with the calls made up to there.
\<close>

definition and_then ::
  "(exc + 'a) \<times> request list \<Rightarrow> ('a \<Rightarrow> request list \<Rightarrow> (exc + 'b) \<times> request list)
     \<Rightarrow> (exc + 'b) \<times> request list" where
  "and_then m f = (case m of (Inl e, calls) \<Rightarrow> (Inl e, calls) | (Inr x, calls) \<Rightarrow> f x calls)"

text \<open>
  \<^verbatim>\<open>
      body = request.get_json(silent=True) or {}
      cep_origem = str(body.get("origem", "")).strip()
      cep_destino = str(body.get("destino", "")).strip()
      observacoes = body.get("observacoes")
  \<close>
\<close>

definition ler_corpo :: "env \<Rightarrow> json option \<Rightarrow> exc + string \<times> string \<times> json" where
  "ler_corpo E req =
     (let body = json_or_empty req in
      try_bind (dict_get body ''origem'' (JStr [])) (\<lambda>v_origem.
      try_bind (dict_get body ''destino'' (JStr [])) (\<lambda>v_destino.
      try_bind (dict_get body ''observacoes'' JNull) (\<lambda>obs.
        Inr (strip (py_str E v_origem), strip (py_str E v_destino), obs)))))"

text \<open>
  \<^verbatim>\<open>
      r = requests.post(f"{API_SECUNDARIA_URL.rstrip('/')}/calcular-distancia", json=payload, timeout=15)
      if r.status_code != 200:
          return {"erro": f"Falha ao calcular distancia na API Secundaria: HTTP {r.status_code}",
                  "detalhes": r.text}, 502
      resultado = r.json()
      distancia_km = float(resultado.get("distancia_km"))
  \<close>
  The result is an exception, the reply of the early \<^verbatim>\<open>return\<close> or the distance.
\<close>

definition chamar_secundaria ::
  "env \<Rightarrow> pyfloat \<Rightarrow> pyfloat \<Rightarrow> pyfloat \<Rightarrow> pyfloat \<Rightarrow> request list
     \<Rightarrow> (exc + (nat \<times> payload) + pyfloat) \<times> request list" where
  "chamar_secundaria E la1 lo1 la2 lo2 calls =
     (case requests_call E (Secundaria_POST la1 lo1 la2 lo2) calls of
        (NoResponse, calls') \<Rightarrow> (Inl RequestException, calls')
      | (Response status rbody, calls') \<Rightarrow>
          if status \<noteq> 200 then (Inr (Inl (502, Falha_API_Secundaria status)), calls')
          else (case rbody of
                  None \<Rightarrow> (Inl (ValueError JSONDecode), calls')
                | Some resultado \<Rightarrow>
                    (try_bind (dict_get resultado ''distancia_km'' JNull) (\<lambda>v.
                     try_bind (py_float E v) (\<lambda>dkm. Inr (Inr dkm))), calls')))"

text \<open>
  The external part of the pipeline, from the first ViaCEP call to the distance:
  \<^verbatim>\<open>
      end_origem = via_cep(cep_origem)
      end_destino = via_cep(cep_destino)
      q_origem = endereco_para_query(end_origem)
      q_destino = endereco_para_query(end_destino)
      lat1, lon1 = geocode_osm(q_origem)
      lat2, lon2 = geocode_osm(q_destino)
  \<close>
  followed by the call of the secondary API.
\<close>

record resolvido =
  end_origem :: json
  end_destino :: json
  origem_lat :: pyfloat
  origem_lon :: pyfloat
  destino_lat :: pyfloat
  destino_lon :: pyfloat
  resultado :: "(nat \<times> payload) + pyfloat"

definition etapas_externas :: "env \<Rightarrow> string \<Rightarrow> string \<Rightarrow> (exc + resolvido) \<times> request list" where
  "etapas_externas E origem destino =
     and_then (via_cep E origem []) (\<lambda>eo calls1.
     and_then (via_cep E destino calls1) (\<lambda>ed calls2.
     and_then (endereco_para_query eo, calls2) (\<lambda>q_origem calls2a.
     and_then (endereco_para_query ed, calls2a) (\<lambda>q_destino calls2b.
     and_then (geocode_osm E q_origem calls2b) (\<lambda>p1 calls3.
     and_then (geocode_osm E q_destino calls3) (\<lambda>p2 calls4.
     and_then (chamar_secundaria E (fst p1) (snd p1) (fst p2) (snd p2) calls4) (\<lambda>r calls5.
       (Inr \<lparr>end_origem = eo, end_destino = ed,
             origem_lat = fst p1, origem_lon = snd p1,
             destino_lat = fst p2, destino_lon = snd p2, resultado = r\<rparr>, calls5))))))))"

text \<open>
  \<^verbatim>\<open>
      criado_em = datetime.utcnow().isoformat(timespec="seconds") + "Z"
      db = get_db()
      cur = db.execute("INSERT INTO consultas (...) VALUES (?, ?, ?, ?, ?, ?, ?, ?, ?)", (...))
      db.commit()
      novo_id = cur.lastrowid
      return {"id": novo_id, ..., "distancia_km": round(distancia_km, 3), ...}, 200
  \<close>
\<close>

definition persistir ::
  "env \<Rightarrow> database \<Rightarrow> string \<Rightarrow> string \<Rightarrow> json \<Rightarrow> resolvido \<Rightarrow> pyfloat
     \<Rightarrow> exc + (nat \<times> payload) \<times> database" where
  "persistir E db origem destino obs rs dkm =
     try_bind (bind_text E obs) (\<lambda>notes.
       let nova = \<lparr>consulta_id = 0, cep_origem = origem, cep_destino = destino,
                   lat1 = origem_lat rs, lon1 = origem_lon rs,
                   lat2 = destino_lat rs, lon2 = destino_lon rs,
                   distancia_km = dkm, criado_em = utcnow E, observacoes = notes\<rparr>
       in try_bind (insert_consulta db nova) (\<lambda>(novo_id, db').
            Inr ((200, Criada (nova\<lparr>consulta_id := novo_id\<rparr>) (end_origem rs) (end_destino rs)
                        (round3 E dkm) obs), db')))"

text \<open>
  The body of the \<^verbatim>\<open>try\<close>. It ends with an exception (\<open>Inl\<close>) or with a reply
  (\<open>Inr\<close>), and gives the store and the list of the external calls as they are at that
  moment.
  \<^verbatim>\<open>
      if not cep_origem or not cep_destino:
          return {"erro": "Informe 'origem' e 'destino' (CEPs)."}, 400
  \<close>
\<close>

definition distancia_por_cep_try ::
  "env \<Rightarrow> database \<Rightarrow> json option \<Rightarrow> (exc + nat \<times> payload) \<times> database \<times> request list" where
  "distancia_por_cep_try E db req =
     (case ler_corpo E req of
        Inl e \<Rightarrow> (Inl e, db, [])
      | Inr (origem, destino, obs) \<Rightarrow>
          if origem = [] \<or> destino = [] then (Inr (400, Informe_origem_destino), db, [])
          else (case etapas_externas E origem destino of
                  (Inl e, calls) \<Rightarrow> (Inl e, db, calls)
                | (Inr rs, calls) \<Rightarrow>
                    (case resultado rs of
                       Inl reply \<Rightarrow> (Inr reply, db, calls)
                     | Inr dkm \<Rightarrow>
                         (case persistir E db origem destino obs rs dkm of
                            Inl e \<Rightarrow> (Inl e, db, calls)
                          | Inr (reply, db') \<Rightarrow> (Inr reply, db', calls)))))"

text \<open>
  The handlers of the \<^verbatim>\<open>try\<close>, in their order:
  \<^verbatim>\<open>
      except ValueError as ve:
          return {"erro": str(ve)}, 400
      except requests.RequestException as re:
          return {"erro": "Falha ao consultar servicos externos.", "detalhes": str(re)}, 502
      except Exception as e:
          return {"erro": f"Erro inesperado: {str(e)}"}, 500
  \<close>
\<close>

fun distancia_por_cep_except :: "exc \<Rightarrow> nat \<times> payload" where
  "distancia_por_cep_except (ValueError m) = (400, Erro_valor m)"
| "distancia_por_cep_except RequestException = (502, Falha_servicos_externos)"
| "distancia_por_cep_except e = (500, Erro_inesperado e)"

definition distancia_por_cep ::
  "env \<Rightarrow> database \<Rightarrow> json option \<Rightarrow> (nat \<times> payload) \<times> database \<times> request list" where
  "distancia_por_cep E db req =
     (case distancia_por_cep_try E db req of
        (Inl e, db', calls) \<Rightarrow> (distancia_por_cep_except e, db', calls)
      | (Inr reply, db', calls) \<Rightarrow> (reply, db', calls))"

section \<open>The record endpoints\<close>

text \<open>
  \<^verbatim>\<open>
      try:
          limit = int(request.args.get("limit", 50))
          offset = int(request.args.get("offset", 0))
          limit = max(1, min(limit, 200))
          offset = max(0, offset)
          rows = db.execute("... ORDER BY id DESC LIMIT ? OFFSET ?", (limit, offset)).fetchall()
          dados = [dict(r) for r in rows]
          return {"total": len(dados), "items": dados}, 200
      except Exception as e:
          return {"erro": f"Erro inesperado: {str(e)}"}, 500
  \<close>
  A query argument is a string when it is given.
\<close>

definition int_arg :: "env \<Rightarrow> string option \<Rightarrow> int \<Rightarrow> exc + int" where
  "int_arg E arg dflt =
     (case arg of
        None \<Rightarrow> Inr dflt
      | Some s \<Rightarrow> (case int_str E s of None \<Rightarrow> Inl (ValueError Int_invalido) | Some n \<Rightarrow> Inr n))"

definition listar_consultas :: "env \<Rightarrow> database \<Rightarrow> string option \<Rightarrow> string option \<Rightarrow> nat \<times> payload" where
  "listar_consultas E db limit_arg offset_arg =
     (case int_arg E limit_arg 50 of Inl e \<Rightarrow> (500, Erro_inesperado e) | Inr limit0 \<Rightarrow>
      case int_arg E offset_arg 0 of Inl e \<Rightarrow> (500, Erro_inesperado e) | Inr offset0 \<Rightarrow>
      let limit = max 1 (min limit0 200);
          offset = max 0 offset0
      in case select_page db limit offset of
           Inl e \<Rightarrow> (500, Erro_inesperado e)
         | Inr dados \<Rightarrow> (200, Lista (length dados) dados))"

text \<open>
  \<^verbatim>\<open>
      row = db.execute("SELECT * FROM consultas WHERE id = ?", (consulta_id,)).fetchone()
      if not row:
          return {"erro": "Consulta nao encontrada."}, 404
      return dict(row), 200
  \<close>
  The route takes \<^verbatim>\<open><int:consulta_id>\<close>, which matches digits only and any number
  of them: the identifier is a natural number of any size. The three views of a record
  have no \<^verbatim>\<open>try\<close>: an exception leaves the view and Flask replies 500.
\<close>

definition obter_consulta :: "database \<Rightarrow> nat \<Rightarrow> nat \<times> payload" where
  "obter_consulta db i =
     (case select_by_id db i of
        Inl e \<Rightarrow> (500, Nao_tratada e)
      | Inr None \<Rightarrow> (404, Nao_encontrada)
      | Inr (Some row) \<Rightarrow> (200, Registro row))"

text \<open>
  \<^verbatim>\<open>
      body = request.get_json(silent=True) or {}
      observacoes = body.get("observacoes")
      db = get_db()
      cur = db.execute("UPDATE consultas SET observacoes = ? WHERE id = ?", (observacoes, consulta_id))
      db.commit()
      if cur.rowcount == 0:
          return {"erro": "Consulta nao encontrada."}, 404
      row = db.execute("SELECT * FROM consultas WHERE id = ?", (consulta_id,)).fetchone()
      return dict(row), 200
  \<close>
  The two parameters are bound in their order, the notes first.
  \<^verbatim>\<open>dict(None)\<close> is a \<^verbatim>\<open>TypeError\<close>.
\<close>

definition atualizar_consulta ::
  "env \<Rightarrow> database \<Rightarrow> nat \<Rightarrow> json option \<Rightarrow> (nat \<times> payload) \<times> database" where
  "atualizar_consulta E db i req =
     (let body = json_or_empty req in
      case dict_get body ''observacoes'' JNull of Inl e \<Rightarrow> ((500, Nao_tratada e), db) | Inr obs \<Rightarrow>
      case bind_text E obs of Inl e \<Rightarrow> ((500, Nao_tratada e), db) | Inr notes \<Rightarrow>
      case update_observacoes db notes i of Inl e \<Rightarrow> ((500, Nao_tratada e), db)
      | Inr (rowcount, db') \<Rightarrow>
          if rowcount = 0 then ((404, Nao_encontrada), db')
          else (case select_by_id db' i of
                  Inl e \<Rightarrow> ((500, Nao_tratada e), db')
                | Inr None \<Rightarrow> ((500, Nao_tratada TypeError), db')
                | Inr (Some row) \<Rightarrow> ((200, Registro row), db')))"

text \<open>
  \<^verbatim>\<open>
      cur = db.execute("DELETE FROM consultas WHERE id = ?", (consulta_id,))
      db.commit()
      if cur.rowcount == 0:
          return {"erro": "Consulta nao encontrada."}, 404
      return {"status": "excluida", "id": consulta_id}, 200
  \<close>
\<close>

definition excluir_consulta :: "database \<Rightarrow> nat \<Rightarrow> (nat \<times> payload) \<times> database" where
  "excluir_consulta db i =
     (case delete_by_id db i of
        Inl e \<Rightarrow> ((500, Nao_tratada e), db)
      | Inr (rowcount, db') \<Rightarrow>
          if rowcount = 0 then ((404, Nao_encontrada), db') else ((200, Excluida i), db'))"

section \<open>Notions of the specification used to state the properties\<close>

text \<open>
  What a normalized address holds in a field: the text of a string, the empty text when
  the field is absent or null, and nothing (\<open>None\<close>) when the JSON value is of another
  type, which a normalized address never has.
\<close>

definition campo :: "(string \<times> json) list \<Rightarrow> string \<Rightarrow> string option" where
  "campo kvs k =
     (case map_of kvs k of
        None \<Rightarrow> Some []
      | Some JNull \<Rightarrow> Some []
      | Some (JStr s) \<Rightarrow> Some s
      | Some _ \<Rightarrow> None)"

text \<open>
  The geocoding service reports no match for the query \<open>q\<close>, asked as the external
  call number \<open>n\<close>: it answers with a status that \<^verbatim>\<open>raise_for_status\<close> lets through
  and a JSON body that is empty (an empty list, or any other falsy value).
\<close>

definition no_match :: "env \<Rightarrow> nat \<Rightarrow> string \<Rightarrow> bool" where
  "no_match E n q =
     (case remote E n (Nominatim_GET q) of
        NoResponse \<Rightarrow> False
      | Response status body \<Rightarrow>
          (case body of
             None \<Rightarrow> False
           | Some items \<Rightarrow> \<not> (400 \<le> status \<and> status < 600) \<and> \<not> truthy items))"

text \<open>
  The geocoding service reports a match with the coordinates \<open>c\<close> for the query
  \<open>q\<close>, asked as the external call number \<open>n\<close>: it answers with a status that
  \<^verbatim>\<open>raise_for_status\<close> lets through and a JSON list whose first item is an object
  with the fields \<^verbatim>\<open>lat\<close> and \<^verbatim>\<open>lon\<close>, which \<^verbatim>\<open>float\<close> reads as the two
  numbers of \<open>c\<close>.
\<close>

definition matched :: "env \<Rightarrow> nat \<Rightarrow> string \<Rightarrow> pyfloat \<times> pyfloat \<Rightarrow> bool" where
  "matched E n q c =
     (case remote E n (Nominatim_GET q) of
        Response status (Some (JArr (JObj kvs # rest))) \<Rightarrow>
          \<not> (400 \<le> status \<and> status < 600)
          \<and> (case (map_of kvs ''lat'', map_of kvs ''lon'') of
                (Some v1, Some v2) \<Rightarrow> py_float E v1 = Inr (fst c) \<and> py_float E v2 = Inr (snd c)
              | _ \<Rightarrow> False)
      | _ \<Rightarrow> False)"

text \<open>
  The address lookup service flags the postal code \<open>cep\<close> as nonexistent, asked as the
  external call number \<open>n\<close>: it answers 200 with a JSON object whose field
  \<^verbatim>\<open>erro\<close> is truthy.
\<close>

definition flagged :: "env \<Rightarrow> nat \<Rightarrow> string \<Rightarrow> bool" where
  "flagged E n cep =
     (case remote E n (ViaCEP_GET (strip (remove_hyphens cep))) of
        NoResponse \<Rightarrow> False
      | Response s b \<Rightarrow>
          s = 200 \<and>
          (case b of
             Some (JObj kvs) \<Rightarrow> (case map_of kvs ''erro'' of None \<Rightarrow> False | Some flag \<Rightarrow> truthy flag)
           | _ \<Rightarrow> False))"

text \<open>
  A postal code of the request body is absent, or is a string that is empty after
  trimming.
\<close>

definition em_branco :: "(string \<times> json) list \<Rightarrow> string \<Rightarrow> bool" where
  "em_branco kvs k =
     (case map_of kvs k of
        None \<Rightarrow> True
      | Some (JStr s) \<Rightarrow> strip s = []
      | Some _ \<Rightarrow> False)"

text \<open>Clamping a number into the range from \<open>lo\<close> to \<open>hi\<close>.\<close>

definition clamp_spec :: "int \<Rightarrow> int \<Rightarrow> int \<Rightarrow> int" where
  "clamp_spec lo hi x = (if x < lo then lo else if hi < x then hi else x)"

text \<open>
  The page of the listing as the specification words it: the records ordered by
  identifier, newest first, without the first \<open>offset\<close> of them, and at most \<open>limit\<close>
  of those that remain.
\<close>

definition spec_page :: "consulta list \<Rightarrow> nat \<Rightarrow> nat \<Rightarrow> consulta list" where
  "spec_page rows limit offset = take limit (drop offset (rev (sort_key consulta_id rows)))"

section \<open>Concrete environments\<close>

text \<open>
  An environment for concrete runs: the network is given, the clock reads noon of the
  first of May 2024, and the Python built-ins are tabulated on the few values the runs
  use. Every float of the runs is a double with at most three decimal places, which
  \<^verbatim>\<open>round(x, 3)\<close> leaves as it is.
\<close>

definition mundo :: "(nat \<Rightarrow> request \<Rightarrow> response) \<Rightarrow> env" where
  "mundo r =
     \<lparr>remote = r, utcnow = ''2024-05-01T12:00:00Z'',
      str_other = (\<lambda>v. case v of JNull \<Rightarrow> ''None'' | JBool b \<Rightarrow> (if b then ''True'' else ''False'') | _ \<Rightarrow> ''?''),
      float_str = (\<lambda>s. if s = ''-23.5'' then Some (Double (- 23.5))
                       else if s = ''-46.625'' then Some (Double (- 46.625)) else None),
      int_str = (\<lambda>s. if s = ''0'' then Some 0 else if s = ''9999'' then Some 9999
                     else if s = ''9223372036854775808'' then Some 9223372036854775808 else None),
      round3 = (\<lambda>f. f),
      sqlite_text = (\<lambda>v. case v of JInt n \<Rightarrow> (if n = 0 then ''0'' else if n = 1 then ''1'' else ''?'')
                           | _ \<Rightarrow> ''?'')\<rparr>"

text \<open>
  An empty store, the request body of the API's documentation, an address and a
  geocoder match for it, and a network that answers each of the three services with a
  fixed response.
\<close>

definition banco_vazio :: database where
  "banco_vazio = \<lparr>linhas = [], seq = 0\<rparr>"

definition corpo_exemplo :: "json option" where
  "corpo_exemplo =
     Some (JObj [(''origem'', JStr ''01001-000''), (''destino'', JStr ''20040-020''),
                 (''observacoes'', JStr ''Teste'')])"

definition endereco_se :: json where
  "endereco_se =
     JObj [(''logradouro'', JStr ''Praca da Se''), (''bairro'', JStr ''Se''),
           (''localidade'', JStr ''Sao Paulo''), (''uf'', JStr ''SP'')]"

definition achado :: json where
  "achado = JArr [JObj [(''lat'', JStr ''-23.5''), (''lon'', JStr ''-46.625'')]]"

definition rede :: "response \<Rightarrow> response \<Rightarrow> response \<Rightarrow> nat \<Rightarrow> request \<Rightarrow> response" where
  "rede viacep nominatim secundaria n rq =
     (case rq of
        ViaCEP_GET cep \<Rightarrow> viacep
      | Nominatim_GET q \<Rightarrow> nominatim
      | Secundaria_POST a b c d \<Rightarrow> secundaria)"

text \<open>A stored record with a given identifier, and a store of three records.\<close>

definition linha :: "nat \<Rightarrow> consulta" where
  "linha i =
     \<lparr>consulta_id = i, cep_origem = ''01001-000'', cep_destino = ''20040-020'',
      lat1 = Double (- 23.5), lon1 = Double (- 46.625), lat2 = Double (- 22.875),
      lon2 = Double (- 43.125), distancia_km = Double 357.75, criado_em = ''2024-05-01T12:00:00Z'', observacoes = Some ''nota''\<rparr>"

definition banco3 :: database where
  "banco3 = \<lparr>linhas = [linha 1, linha 2, linha 3], seq = 3\<rparr>"

section \<open>Properties of the query builder\<close>

lemma py_or_campo:
  assumes "campo kvs k = Some s"
  shows "py_or (case map_of kvs k of None \<Rightarrow> JNull | Some v \<Rightarrow> v) (JStr []) = JStr s"
  using assms by (auto simp: campo_def py_or_def split: option.splits json.splits)

lemma strs_of_JStr: "strs_of (map JStr ss) = Inr ss"
  by (induction ss) (simp_all add: try_bind_def)

lemma filter_truthy_JStr: "filter truthy (map JStr ss) = map JStr (filter (\<lambda>s. s \<noteq> []) ss)"
  by (induction ss) simp_all

lemma py_join_JStr: "py_join sep (filter truthy (map JStr ss)) = Inr (join_str sep (filter (\<lambda>s. s \<noteq> []) ss))"
  by (simp add: py_join_def filter_truthy_JStr strs_of_JStr try_bind_def)

text \<open>
  Claim C7. For every address whose four fields are each absent, null or a string, the
  query builder returns (it raises nothing) the non-empty ones among street,
  neighbourhood, locality and region code, in that order, followed by the country
  token \<open>Brazil\<close>, joined by a comma and a space; when all four are empty the result
  is the bare country token.
\<close>

theorem endereco_para_query_components:
  assumes "campo kvs ''logradouro'' = Some l"
    and "campo kvs ''bairro'' = Some b"
    and "campo kvs ''localidade'' = Some c"
    and "campo kvs ''uf'' = Some u"
  shows "endereco_para_query (JObj kvs) =
           Inr (join_str '', '' (filter (\<lambda>s. s \<noteq> []) [l, b, c, u] @ [''Brazil'']))
         \<and> (l = [] \<and> b = [] \<and> c = [] \<and> u = [] \<longrightarrow>
              endereco_para_query (JObj kvs) = Inr ''Brazil'')"
proof -
  have "endereco_para_query (JObj kvs) =
          py_join '', '' (filter truthy (map JStr [l, b, c, u, ''Brazil'']))"
    unfolding endereco_para_query_def
    by (simp only: dict_get.simps try_bind_def sum.case Let_def py_or_campo [OF assms(1)]
        py_or_campo [OF assms(2)] py_or_campo [OF assms(3)] py_or_campo [OF assms(4)] list.map)
  also have "\<dots> = Inr (join_str '', '' (filter (\<lambda>s. s \<noteq> []) [l, b, c, u, ''Brazil'']))"
    by (rule py_join_JStr)
  finally have eq: "endereco_para_query (JObj kvs) =
      Inr (join_str '', '' (filter (\<lambda>s. s \<noteq> []) [l, b, c, u] @ [''Brazil'']))"
    by simp
  then show ?thesis by auto
qed

text \<open>
  The example of the specification: only the locality Sao Paulo (its second letter is
  a with tilde, the code point 0xE3) and the region \<open>SP\<close> are given, the street is null and the
  neighbourhood is the empty string.
\<close>

theorem endereco_para_query_components_witness:
  "campo [(''logradouro'', JNull), (''bairro'', JStr []),
          (''localidade'', JStr (''S'' @ [CHR 0xE3] @ ''o Paulo'')), (''uf'', JStr ''SP'')]
         ''localidade'' = Some (''S'' @ [CHR 0xE3] @ ''o Paulo'')
   \<and> endereco_para_query
         (JObj [(''logradouro'', JNull), (''bairro'', JStr []),
                (''localidade'', JStr (''S'' @ [CHR 0xE3] @ ''o Paulo'')), (''uf'', JStr ''SP'')])
       = Inr (''S'' @ [CHR 0xE3] @ ''o Paulo, SP, Brazil'')
   \<and> endereco_para_query (JObj []) = Inr ''Brazil''"
  using endereco_para_query_components
          [of "[(''logradouro'', JNull), (''bairro'', JStr []),
                (''localidade'', JStr (''S'' @ [CHR 0xE3] @ ''o Paulo'')), (''uf'', JStr ''SP'')]"
              "[]" "[]" "''S'' @ [CHR 0xE3] @ ''o Paulo''" "''SP''"]
        endereco_para_query_components [of "[]" "[]" "[]" "[]" "[]"]
  by (simp add: campo_def)

section \<open>Properties of the geocoder\<close>

lemma search_calls: "snd (search E q calls) = calls @ [Nominatim_GET q]"
  by (auto simp: search_def requests_call_def split: response.splits option.splits)

lemma try_bind_Some_not_None: "try_bind m (\<lambda>c. Inr (Some c)) \<noteq> Inr None"
  by (cases m) (simp_all add: try_bind_def)

lemma search_None_iff: "fst (search E q calls) = Inr None \<longleftrightarrow> no_match E (length calls) q"
  by (auto simp: search_def requests_call_def no_match_def try_bind_Some_not_None
      split: response.splits option.splits)

lemma search_eq: "search E q calls = (fst (search E q calls), calls @ [Nominatim_GET q])"
  by (metis prod.collapse search_calls)

lemma last3_three:
  assumes "3 \<le> length xs"
  shows "last3 xs = [xs ! (length xs - 3), xs ! (length xs - 2), xs ! (length xs - 1)]"
proof -
  have l: "length (last3 xs) = 3" using assms by (simp add: last3_def)
  have n: "\<And>i. i < 3 \<Longrightarrow> last3 xs ! i = xs ! (length xs - 3 + i)"
    using assms by (simp add: last3_def)
  show ?thesis
  proof (rule nth_equalityI)
    show "length (last3 xs) = length [xs ! (length xs - 3), xs ! (length xs - 2), xs ! (length xs - 1)]"
      using l by simp
  next
    fix i assume "i < length (last3 xs)"
    then have i: "i = 0 \<or> i = 1 \<or> i = 2" using l by auto
    have a: "length xs - 3 + 1 = length xs - 2" "length xs - 3 + 2 = length xs - 1"
      using assms by auto
    from i show "last3 xs ! i = [xs ! (length xs - 3), xs ! (length xs - 2), xs ! (length xs - 1)] ! i"
      using n [of i] a by auto
  qed
qed

lemma coords_of_Inr_iff:
  "coords_of E items = Inr c \<longleftrightarrow>
     (\<exists>kvs rest v1 v2. items = JArr (JObj kvs # rest) \<and> map_of kvs ''lat'' = Some v1
        \<and> map_of kvs ''lon'' = Some v2 \<and> py_float E v1 = Inr (fst c) \<and> py_float E v2 = Inr (snd c))"
proof (cases items)
  case (JArr xs)
  show ?thesis
  proof (cases xs)
    case Nil
    with JArr show ?thesis by (simp add: coords_of_def try_bind_def)
  next
    case (Cons x rest)
    show ?thesis
    proof (cases x)
      case (JObj kvs)
      with JArr Cons show ?thesis
        by (cases c) (auto simp: coords_of_def try_bind_def split: option.splits sum.splits)
    qed (simp_all add: JArr Cons coords_of_def try_bind_def)
  qed
next
  case (JStr s)
  then show ?thesis by (cases s) (simp_all add: coords_of_def try_bind_def)
qed (simp_all add: coords_of_def try_bind_def)

lemma search_Some_iff: "fst (search E q calls) = Inr (Some c) \<longleftrightarrow> matched E (length calls) q c"
proof (cases "remote E (length calls) (Nominatim_GET q)")
  case NoResponse
  then show ?thesis by (simp add: search_def requests_call_def matched_def)
next
  case (Response status body)
  show ?thesis
  proof (cases body)
    case None
    with Response show ?thesis by (simp add: search_def requests_call_def matched_def)
  next
    case (Some items)
    have t: "try_bind (coords_of E items) (\<lambda>c. Inr (Some c)) = Inr (Some c) \<longleftrightarrow> coords_of E items = Inr c"
      by (cases "coords_of E items") (simp_all add: try_bind_def)
    have m: "matched E (length calls) q c \<longleftrightarrow>
              \<not> (400 \<le> status \<and> status < 600) \<and> coords_of E items = Inr c"
      unfolding coords_of_Inr_iff matched_def Response Some
      by (auto split: json.splits list.splits option.splits)
    have tr: "coords_of E items = Inr c \<Longrightarrow> truthy items"
      unfolding coords_of_Inr_iff by auto
    show ?thesis
      unfolding m using Response Some t tr
      by (auto simp: search_def requests_call_def)
  qed
qed

text \<open>
  Claim C2. For every query, whatever calls were made before: the geocoder first
  submits the full query, and when the service reports a match for it the geocoder
  returns the coordinates of that match and makes no other call. If the service reports
  no match for the full query and the query splits on the comma into at least three
  trimmed segments, the calls of the geocoder are exactly two, the full query and then
  the last three segments joined by a comma and a space; when the service reports a
  match for that second query the geocoder returns its coordinates, and when it reports
  no match for it either the geocoder raises the not-found error. If the full query has
  no match and fewer than three segments, it raises the not-found error after that
  single call. The geocoder never makes a third call, and it makes the second one only
  after a first one with no match. Coordinates are returned only when one of the two
  lookups matched with them: there is no empty or silent result.
\<close>

theorem geocode_osm_two_tier:
  "(\<exists>more. snd (geocode_osm E query calls) = calls @ Nominatim_GET query # more)
   \<and> (\<forall>c. matched E (length calls) query c \<longrightarrow>
          geocode_osm E query calls = (Inr c, calls @ [Nominatim_GET query]))
   \<and> (no_match E (length calls) query \<and> 3 \<le> length (partes_of query) \<longrightarrow>
        snd (geocode_osm E query calls)
          = calls @ [Nominatim_GET query, Nominatim_GET (join_str '', '' (last3 (partes_of query)))]
        \<and> last3 (partes_of query)
          = [partes_of query ! (length (partes_of query) - 3),
             partes_of query ! (length (partes_of query) - 2),
             partes_of query ! (length (partes_of query) - 1)]
        \<and> (\<forall>c. matched E (Suc (length calls)) (join_str '', '' (last3 (partes_of query))) c \<longrightarrow>
               fst (geocode_osm E query calls) = Inr c)
        \<and> (no_match E (Suc (length calls)) (join_str '', '' (last3 (partes_of query))) \<longrightarrow>
             fst (geocode_osm E query calls) = Inl (ValueError Nao_geocodificado)))
   \<and> (no_match E (length calls) query \<and> length (partes_of query) < 3 \<longrightarrow>
        geocode_osm E query calls = (Inl (ValueError Nao_geocodificado), calls @ [Nominatim_GET query]))
   \<and> (snd (geocode_osm E query calls) = calls @ [Nominatim_GET query]
        \<or> (no_match E (length calls) query \<and> 3 \<le> length (partes_of query)
            \<and> snd (geocode_osm E query calls)
                = calls @ [Nominatim_GET query, Nominatim_GET (join_str '', '' (last3 (partes_of query)))]))
   \<and> (\<forall>c. fst (geocode_osm E query calls) = Inr c \<longrightarrow>
        matched E (length calls) query c
        \<or> (no_match E (length calls) query \<and> 3 \<le> length (partes_of query)
            \<and> matched E (Suc (length calls)) (join_str '', '' (last3 (partes_of query))) c))"
proof -
  let ?q2 = "join_str '', '' (last3 (partes_of query))"
  let ?c1 = "calls @ [Nominatim_GET query]"
  obtain r1 where s1: "search E query calls = (r1, ?c1)"
    using search_eq by blast
  obtain r2 where s2: "search E ?q2 ?c1 = (r2, ?c1 @ [Nominatim_GET ?q2])"
    using search_eq by blast
  have n1: "r1 = Inr None \<longleftrightarrow> no_match E (length calls) query"
    using search_None_iff [of E query calls] s1 by simp
  have n2: "r2 = Inr None \<longleftrightarrow> no_match E (Suc (length calls)) ?q2"
    using search_None_iff [of E ?q2 ?c1] s2 by simp
  have m1: "\<And>c. r1 = Inr (Some c) \<longleftrightarrow> matched E (length calls) query c"
    using search_Some_iff [of E query calls] s1 by simp
  have m2: "\<And>c. r2 = Inr (Some c) \<longleftrightarrow> matched E (Suc (length calls)) ?q2 c"
    using search_Some_iff [of E ?q2 ?c1] s2 by simp
  have g: "geocode_osm E query calls =
      (case r1 of
         Inl e \<Rightarrow> (Inl e, ?c1)
       | Inr (Some c) \<Rightarrow> (Inr c, ?c1)
       | Inr None \<Rightarrow>
           if 3 \<le> length (partes_of query) then
             (case r2 of
                Inl e \<Rightarrow> (Inl e, ?c1 @ [Nominatim_GET ?q2])
              | Inr (Some c) \<Rightarrow> (Inr c, ?c1 @ [Nominatim_GET ?q2])
              | Inr None \<Rightarrow> (Inl (ValueError Nao_geocodificado), ?c1 @ [Nominatim_GET ?q2]))
           else (Inl (ValueError Nao_geocodificado), ?c1))"
    by (simp add: geocode_osm_def Let_def s1 s2 split: sum.splits option.splits)
  have p1: "\<exists>more. snd (geocode_osm E query calls) = calls @ Nominatim_GET query # more"
    unfolding g by (auto split: sum.splits option.splits)
  have p2: "\<forall>c. matched E (length calls) query c \<longrightarrow>
          geocode_osm E query calls = (Inr c, calls @ [Nominatim_GET query])"
  proof (intro allI impI)
    fix c assume "matched E (length calls) query c"
    then have "r1 = Inr (Some c)" using m1 by blast
    then show "geocode_osm E query calls = (Inr c, calls @ [Nominatim_GET query])"
      unfolding g by simp
  qed
  have p3: "no_match E (length calls) query \<and> 3 \<le> length (partes_of query) \<longrightarrow>
        snd (geocode_osm E query calls) = calls @ [Nominatim_GET query, Nominatim_GET ?q2]
        \<and> last3 (partes_of query)
          = [partes_of query ! (length (partes_of query) - 3),
             partes_of query ! (length (partes_of query) - 2),
             partes_of query ! (length (partes_of query) - 1)]
        \<and> (\<forall>c. matched E (Suc (length calls)) ?q2 c \<longrightarrow> fst (geocode_osm E query calls) = Inr c)
        \<and> (no_match E (Suc (length calls)) ?q2 \<longrightarrow>
             fst (geocode_osm E query calls) = Inl (ValueError Nao_geocodificado))"
  proof (intro impI, elim conjE)
    assume a: "no_match E (length calls) query" and b: "3 \<le> length (partes_of query)"
    from a n1 have r1: "r1 = Inr None" by simp
    have g': "geocode_osm E query calls =
             (case r2 of
                Inl e \<Rightarrow> (Inl e, ?c1 @ [Nominatim_GET ?q2])
              | Inr (Some c) \<Rightarrow> (Inr c, ?c1 @ [Nominatim_GET ?q2])
              | Inr None \<Rightarrow> (Inl (ValueError Nao_geocodificado), ?c1 @ [Nominatim_GET ?q2]))"
      unfolding g using r1 b by simp
    have x1: "snd (geocode_osm E query calls) = calls @ [Nominatim_GET query, Nominatim_GET ?q2]"
      unfolding g' by (auto split: sum.splits option.splits)
    have x2: "\<forall>c. matched E (Suc (length calls)) ?q2 c \<longrightarrow> fst (geocode_osm E query calls) = Inr c"
    proof (intro allI impI)
      fix c assume "matched E (Suc (length calls)) ?q2 c"
      then have "r2 = Inr (Some c)" using m2 by blast
      then show "fst (geocode_osm E query calls) = Inr c"
        unfolding g' by simp
    qed
    have x3: "no_match E (Suc (length calls)) ?q2 \<longrightarrow>
             fst (geocode_osm E query calls) = Inl (ValueError Nao_geocodificado)"
      unfolding g' using n2 by auto
    from x1 x2 x3 last3_three [OF b]
    show "snd (geocode_osm E query calls) = calls @ [Nominatim_GET query, Nominatim_GET ?q2]
        \<and> last3 (partes_of query)
          = [partes_of query ! (length (partes_of query) - 3),
             partes_of query ! (length (partes_of query) - 2),
             partes_of query ! (length (partes_of query) - 1)]
        \<and> (\<forall>c. matched E (Suc (length calls)) ?q2 c \<longrightarrow> fst (geocode_osm E query calls) = Inr c)
        \<and> (no_match E (Suc (length calls)) ?q2 \<longrightarrow>
             fst (geocode_osm E query calls) = Inl (ValueError Nao_geocodificado))"
      by blast
  qed
  have p4: "no_match E (length calls) query \<and> length (partes_of query) < 3 \<longrightarrow>
        geocode_osm E query calls = (Inl (ValueError Nao_geocodificado), ?c1)"
    unfolding g using n1 by (auto split: sum.splits option.splits)
  have p5: "snd (geocode_osm E query calls) = ?c1
        \<or> (no_match E (length calls) query \<and> 3 \<le> length (partes_of query)
            \<and> snd (geocode_osm E query calls) = calls @ [Nominatim_GET query, Nominatim_GET ?q2])"
    unfolding g using n1 by (auto split: sum.splits option.splits)
  have p6: "\<forall>c. fst (geocode_osm E query calls) = Inr c \<longrightarrow>
        matched E (length calls) query c
        \<or> (no_match E (length calls) query \<and> 3 \<le> length (partes_of query)
            \<and> matched E (Suc (length calls)) ?q2 c)"
    unfolding g using n1 m1 m2 by (auto split: sum.splits option.splits if_splits)
  from p1 p2 p3 p4 p5 p6 show ?thesis by blast
qed

text \<open>
  An address of five segments, asked of three services. One has no match for anything:
  two calls, the second with the last three segments, and the not-found error. One
  matches everything: one call, and its coordinates. One has no match for the first
  call and matches the second: two calls, and the coordinates of the second.
\<close>

theorem geocode_osm_two_tier_witness:
  "no_match (mundo (\<lambda>n rq. Response 200 (Some (JArr [])))) 0 ''Rua A, Centro, Sao Paulo, SP, Brazil''
   \<and> partes_of ''Rua A, Centro, Sao Paulo, SP, Brazil'' = [''Rua A'', ''Centro'', ''Sao Paulo'', ''SP'', ''Brazil'']
   \<and> no_match (mundo (\<lambda>n rq. Response 200 (Some (JArr [])))) 1 ''Sao Paulo, SP, Brazil''
   \<and> geocode_osm (mundo (\<lambda>n rq. Response 200 (Some (JArr [])))) ''Rua A, Centro, Sao Paulo, SP, Brazil'' []
       = (Inl (ValueError Nao_geocodificado),
          [Nominatim_GET ''Rua A, Centro, Sao Paulo, SP, Brazil'', Nominatim_GET ''Sao Paulo, SP, Brazil''])
   \<and> matched (mundo (\<lambda>n rq. Response 200 (Some achado))) 0 ''Rua A, Centro, Sao Paulo, SP, Brazil''
        (Double (- 23.5), Double (- 46.625))
   \<and> geocode_osm (mundo (\<lambda>n rq. Response 200 (Some achado))) ''Rua A, Centro, Sao Paulo, SP, Brazil'' []
       = (Inr (Double (- 23.5), Double (- 46.625)), [Nominatim_GET ''Rua A, Centro, Sao Paulo, SP, Brazil''])
   \<and> matched (mundo (\<lambda>n rq. Response 200 (Some (if n = 0 then JArr [] else achado)))) 1
        ''Sao Paulo, SP, Brazil'' (Double (- 23.5), Double (- 46.625))
   \<and> geocode_osm (mundo (\<lambda>n rq. Response 200 (Some (if n = 0 then JArr [] else achado))))
        ''Rua A, Centro, Sao Paulo, SP, Brazil'' []
       = (Inr (Double (- 23.5), Double (- 46.625)),
          [Nominatim_GET ''Rua A, Centro, Sao Paulo, SP, Brazil'', Nominatim_GET ''Sao Paulo, SP, Brazil''])"
proof -
  let ?q = "''Rua A, Centro, Sao Paulo, SP, Brazil''"
  let ?E0 = "mundo (\<lambda>n rq. Response 200 (Some (JArr [])))"
  let ?E1 = "mundo (\<lambda>n rq. Response 200 (Some achado))"
  let ?E2 = "mundo (\<lambda>n rq. Response 200 (Some (if n = 0 then JArr [] else achado)))"
  have p: "partes_of ?q = [''Rua A'', ''Centro'', ''Sao Paulo'', ''SP'', ''Brazil'']"
    by (simp add: partes_of_def py_split_def strip_def isspace_def)
  have q2: "join_str '', '' (last3 (partes_of ?q)) = ''Sao Paulo, SP, Brazil''"
    by (simp add: p last3_def)
  have n0: "\<And>n q. no_match ?E0 n q"
    by (simp add: no_match_def mundo_def)
  have m1: "\<And>n q. matched ?E1 n q (Double (- 23.5), Double (- 46.625))"
    by (simp add: matched_def mundo_def achado_def)
  have n2: "\<And>q. no_match ?E2 0 q"
    by (simp add: no_match_def mundo_def)
  have m2: "\<And>q. matched ?E2 (Suc 0) q (Double (- 23.5), Double (- 46.625))"
    by (simp add: matched_def mundo_def achado_def)
  note t0 = geocode_osm_two_tier [of ?E0 ?q "[]"]
  note t1 = geocode_osm_two_tier [of ?E1 ?q "[]"]
  note t2 = geocode_osm_two_tier [of ?E2 ?q "[]"]
  have r0: "geocode_osm ?E0 ?q [] = (Inl (ValueError Nao_geocodificado), [Nominatim_GET ?q, Nominatim_GET ''Sao Paulo, SP, Brazil''])"
    using t0 n0 p q2 by (simp add: prod_eq_iff)
  have r1: "geocode_osm ?E1 ?q [] = (Inr (Double (- 23.5), Double (- 46.625)), [Nominatim_GET ?q])"
    using t1 m1 by simp
  have r2: "geocode_osm ?E2 ?q [] = (Inr (Double (- 23.5), Double (- 46.625)), [Nominatim_GET ?q, Nominatim_GET ''Sao Paulo, SP, Brazil''])"
    using t2 n2 m2 p q2 by (simp add: prod_eq_iff)
  from p n0 m1 m2 r0 r1 r2 show ?thesis by simp
qed
section \<open>Properties of the pipeline\<close>

lemma via_cep_calls: "snd (via_cep E cep calls) = calls @ [ViaCEP_GET (strip (remove_hyphens cep))]"
  by (auto simp: via_cep_def requests_call_def Let_def split: response.splits option.splits sum.splits)

lemma via_cep_eq: "via_cep E cep calls = (fst (via_cep E cep calls), calls @ [ViaCEP_GET (strip (remove_hyphens cep))])"
  by (metis prod.collapse via_cep_calls)

lemma via_cep_NoResponse:
  "remote E (length calls) (ViaCEP_GET (strip (remove_hyphens cep))) = NoResponse
   \<Longrightarrow> fst (via_cep E cep calls) = Inl RequestException"
  by (simp add: via_cep_def requests_call_def Let_def)

lemma via_cep_status:
  "remote E (length calls) (ViaCEP_GET (strip (remove_hyphens cep))) = Response s b \<Longrightarrow> s \<noteq> 200
   \<Longrightarrow> fst (via_cep E cep calls) = Inl (ValueError (ViaCEP_HTTP s))"
  by (simp add: via_cep_def requests_call_def Let_def)

lemma via_cep_erro:
  "remote E (length calls) (ViaCEP_GET (strip (remove_hyphens cep))) = Response 200 (Some (JObj kvs))
   \<Longrightarrow> map_of kvs ''erro'' = Some flag \<Longrightarrow> truthy flag
   \<Longrightarrow> fst (via_cep E cep calls) = Inl (ValueError CEP_invalido)"
  by (simp add: via_cep_def requests_call_def Let_def)

lemma via_cep_CEP_invalido_only:
  assumes "fst (via_cep E cep calls) = Inl (ValueError CEP_invalido)"
  shows "\<exists>kvs flag. remote E (length calls) (ViaCEP_GET (strip (remove_hyphens cep))) = Response 200 (Some (JObj kvs))
        \<and> map_of kvs ''erro'' = Some flag \<and> truthy flag"
proof (cases "remote E (length calls) (ViaCEP_GET (strip (remove_hyphens cep)))")
  case NoResponse
  with assms show ?thesis by (simp add: via_cep_def requests_call_def Let_def)
next
  case (Response s b)
  with assms have s: "s = 200"
    by (simp add: via_cep_def requests_call_def Let_def split: if_splits)
  with assms Response obtain data where b: "b = Some data"
    by (cases b) (simp_all add: via_cep_def requests_call_def Let_def)
  from assms Response s b obtain kvs where d: "data = JObj kvs"
    by (cases data) (simp_all add: via_cep_def requests_call_def Let_def)
  from assms Response s b d have "truthy (case map_of kvs ''erro'' of None \<Rightarrow> JNull | Some v \<Rightarrow> v)"
    by (simp add: via_cep_def requests_call_def Let_def split: if_splits)
  then obtain flag where "map_of kvs ''erro'' = Some flag" "truthy flag"
    by (cases "map_of kvs ''erro''") simp_all
  with Response s b d show ?thesis by simp
qed

lemma pipeline_first_fails:
  assumes "ler_corpo E req = Inr (origem, destino, obs)" "origem \<noteq> []" "destino \<noteq> []"
    and "fst (via_cep E origem []) = Inl e"
  shows "distancia_por_cep E db req
         = (distancia_por_cep_except e, db, [ViaCEP_GET (strip (remove_hyphens origem))])"
proof -
  have v: "via_cep E origem [] = (Inl e, [ViaCEP_GET (strip (remove_hyphens origem))])"
    using via_cep_eq [of E origem "[]"] assms(4) by simp
  have "etapas_externas E origem destino = (Inl e, [ViaCEP_GET (strip (remove_hyphens origem))])"
    by (simp add: etapas_externas_def and_then_def v)
  then show ?thesis
    using assms(1-3) by (simp add: distancia_por_cep_def distancia_por_cep_try_def)
qed

lemma pipeline_second_fails:
  assumes "ler_corpo E req = Inr (origem, destino, obs)" "origem \<noteq> []" "destino \<noteq> []"
    and "fst (via_cep E origem []) = Inr eo"
    and "fst (via_cep E destino [ViaCEP_GET (strip (remove_hyphens origem))]) = Inl e"
  shows "distancia_por_cep E db req
         = (distancia_por_cep_except e, db,
            [ViaCEP_GET (strip (remove_hyphens origem)), ViaCEP_GET (strip (remove_hyphens destino))])"
proof -
  let ?c1 = "[ViaCEP_GET (strip (remove_hyphens origem))]"
  have v: "via_cep E origem [] = (Inr eo, ?c1)"
    using via_cep_eq [of E origem "[]"] assms(4) by simp
  have w: "via_cep E destino ?c1 = (Inl e, ?c1 @ [ViaCEP_GET (strip (remove_hyphens destino))])"
    using via_cep_eq [of E destino ?c1] assms(5) by simp
  have "etapas_externas E origem destino = (Inl e, ?c1 @ [ViaCEP_GET (strip (remove_hyphens destino))])"
    by (simp add: etapas_externas_def and_then_def v w)
  then show ?thesis
    using assms(1-3) by (simp add: distancia_por_cep_def distancia_por_cep_try_def)
qed

lemma via_cep_CEP_invalido_iff:
  "fst (via_cep E cep calls) = Inl (ValueError CEP_invalido) \<longleftrightarrow> flagged E (length calls) cep"
proof
  assume "fst (via_cep E cep calls) = Inl (ValueError CEP_invalido)"
  from via_cep_CEP_invalido_only [OF this] show "flagged E (length calls) cep"
    by (auto simp: flagged_def)
next
  assume "flagged E (length calls) cep"
  then show "fst (via_cep E cep calls) = Inl (ValueError CEP_invalido)"
    by (auto simp: flagged_def via_cep_def requests_call_def Let_def
        split: response.splits option.splits json.splits)
qed

text \<open>Which exceptions the later stages can raise.\<close>

lemma try_bind_Inl: "try_bind m f = Inl e \<Longrightarrow> m = Inl e \<or> (\<exists>x. m = Inr x \<and> f x = Inl e)"
  by (cases m) (simp_all add: try_bind_def)

lemma index0_exc: "index0 j = Inl e \<Longrightarrow> e \<noteq> ValueError CEP_invalido"
  by (cases j rule: index0.cases) auto

lemma subscript_exc: "subscript j k = Inl e \<Longrightarrow> e \<noteq> ValueError CEP_invalido"
  by (cases j) (auto split: option.splits)

lemma py_float_exc: "py_float E j = Inl e \<Longrightarrow> e \<noteq> ValueError CEP_invalido"
  by (cases j) (auto simp: float_int_def Let_def split: option.splits if_splits)

lemma dict_get_exc: "dict_get j k d = Inl e \<Longrightarrow> e = AttributeError"
  by (cases j) auto

lemma coords_of_exc: "coords_of E items = Inl e \<Longrightarrow> e \<noteq> ValueError CEP_invalido"
  unfolding coords_of_def
  by (auto dest!: try_bind_Inl dest: index0_exc subscript_exc py_float_exc)

lemma search_exc: "fst (search E q calls) = Inl e \<Longrightarrow> e \<noteq> ValueError CEP_invalido"
  by (auto simp: search_def requests_call_def split: response.splits option.splits if_splits
      dest!: try_bind_Inl dest: coords_of_exc)

lemma search_exc': "search E q calls = (Inl e, c) \<Longrightarrow> e \<noteq> ValueError CEP_invalido"
  using search_exc [of E q calls e] by simp

lemma geocode_osm_exc: "geocode_osm E q calls = (Inl e, c) \<Longrightarrow> e \<noteq> ValueError CEP_invalido"
  by (auto simp: geocode_osm_def Let_def split: prod.splits sum.splits option.splits if_splits
      dest: search_exc')

lemma strs_of_exc: "strs_of xs = Inl e \<Longrightarrow> e = TypeError"
  by (induction xs rule: strs_of.induct) (auto dest!: try_bind_Inl)

lemma endereco_para_query_exc: "endereco_para_query j = Inl e \<Longrightarrow> e \<noteq> ValueError CEP_invalido"
  unfolding endereco_para_query_def py_join_def Let_def
  by (auto dest!: try_bind_Inl dest: dict_get_exc strs_of_exc)

lemma chamar_secundaria_exc:
  "chamar_secundaria E a b c d calls = (Inl e, c') \<Longrightarrow> e \<noteq> ValueError CEP_invalido"
  by (auto simp: chamar_secundaria_def requests_call_def split: response.splits option.splits if_splits
      dest!: try_bind_Inl dest: dict_get_exc py_float_exc)

lemma bind_text_exc: "bind_text E j = Inl e \<Longrightarrow> e = SqliteBindError \<or> e = OverflowError"
  by (cases j) (auto simp: bind_integer_def try_bind_def split: if_splits)

lemma insert_consulta_exc: "insert_consulta db r = Inl e \<Longrightarrow> e = IntegrityError \<or> e = SqliteFull"
  by (auto simp: insert_consulta_def Let_def split: if_splits)

lemma persistir_exc:
  assumes "persistir E db o' d obs rs k = Inl e"
  shows "distancia_por_cep_except e = (500, Erro_inesperado e)"
proof -
  from assms have "e = SqliteBindError \<or> e = OverflowError \<or> e = IntegrityError \<or> e = SqliteFull"
    unfolding persistir_def Let_def
    by (auto dest!: try_bind_Inl dest: bind_text_exc insert_consulta_exc split: prod.splits)
  then show ?thesis by auto
qed

lemma ler_corpo_exc: "ler_corpo E req = Inl e \<Longrightarrow> e = AttributeError"
  unfolding ler_corpo_def Let_def
  by (auto dest!: try_bind_Inl dest: dict_get_exc)

lemma and_then_Inl:
  "and_then m f = (Inl e, c) \<Longrightarrow> m = (Inl e, c) \<or> (\<exists>x c'. m = (Inr x, c') \<and> f x c' = (Inl e, c))"
  by (cases m) (auto simp: and_then_def split: sum.splits)

lemma etapas_externas_CEP_invalido:
  assumes "etapas_externas E origem destino = (Inl (ValueError CEP_invalido), c)"
  shows "flagged E 0 origem \<or> flagged E 1 destino"
proof -
  let ?c1 = "[ViaCEP_GET (strip (remove_hyphens origem))]"
  let ?bad = "ValueError CEP_invalido"
  show ?thesis
  proof (cases "fst (via_cep E origem [])")
    case (Inl e)
    then have "via_cep E origem [] = (Inl e, ?c1)"
      using via_cep_eq [of E origem "[]"] by simp
    with assms have "e = ?bad"
      by (simp add: etapas_externas_def and_then_def)
    with Inl show ?thesis using via_cep_CEP_invalido_iff [of E origem "[]"] by simp
  next
    case (Inr eo)
    then have v: "via_cep E origem [] = (Inr eo, ?c1)"
      using via_cep_eq [of E origem "[]"] by simp
    show ?thesis
    proof (cases "fst (via_cep E destino ?c1)")
      case (Inl e)
      then have "via_cep E destino ?c1 = (Inl e, ?c1 @ [ViaCEP_GET (strip (remove_hyphens destino))])"
        using via_cep_eq [of E destino ?c1] by simp
      with assms v have "e = ?bad"
        by (simp add: etapas_externas_def and_then_def)
      with Inl show ?thesis using via_cep_CEP_invalido_iff [of E destino ?c1] by simp
    next
      case (Inr ed)
      then have w: "via_cep E destino ?c1 = (Inr ed, ?c1 @ [ViaCEP_GET (strip (remove_hyphens destino))])"
        using via_cep_eq [of E destino ?c1] by simp
      from assms have False
        unfolding etapas_externas_def
        apply (simp add: v w and_then_def split: sum.splits prod.splits)
        by (auto dest: endereco_para_query_exc geocode_osm_exc chamar_secundaria_exc)
      then show ?thesis ..
    qed
  qed
qed

lemma geocode_osm_first_call:
  "\<exists>more. snd (geocode_osm E query calls) = calls @ Nominatim_GET query # more"
  using search_eq [of E query calls]
    search_eq [of E "join_str '', '' (last3 (partes_of query))" "calls @ [Nominatim_GET query]"]
  apply (cases "fst (search E query calls)")
   apply (simp add: geocode_osm_def Let_def split: prod.splits sum.splits option.splits)
  apply (cases "fst (search E (join_str '', '' (last3 (partes_of query))) (calls @ [Nominatim_GET query]))")
   apply (auto simp add: geocode_osm_def Let_def split: prod.splits sum.splits option.splits)
  done

lemma geocode_osm_grows:
  "geocode_osm E query calls = (r, c) \<Longrightarrow> length calls < length c"
  using geocode_osm_first_call [of E query calls] by auto

lemma chamar_secundaria_calls:
  "snd (chamar_secundaria E a b c d calls) = calls @ [Secundaria_POST a b c d]"
  by (auto simp: chamar_secundaria_def requests_call_def split: response.splits option.splits)

lemma chamar_secundaria_Inr_Inr:
  assumes "chamar_secundaria E a b c d calls = (Inr (Inr dkm), c')"
  shows "\<exists>res v. remote E (length calls) (Secundaria_POST a b c d) = Response 200 (Some res)
           \<and> dict_get res ''distancia_km'' JNull = Inr v \<and> py_float E v = Inr dkm"
  using assms
  by (auto simp: chamar_secundaria_def requests_call_def try_bind_def
      split: response.splits option.splits if_splits sum.splits)

lemma chamar_secundaria_Inr_Inl:
  assumes "chamar_secundaria E a b c d calls = (Inr (Inl reply), c')"
  shows "\<exists>s body. remote E (length calls) (Secundaria_POST a b c d) = Response s body
           \<and> s \<noteq> 200 \<and> reply = (502, Falha_API_Secundaria s)"
  using assms
  by (auto simp: chamar_secundaria_def requests_call_def try_bind_def
      split: response.splits option.splits if_splits sum.splits)

lemma and_then_Inr:
  "and_then m f = (Inr y, c) \<Longrightarrow> \<exists>x c'. m = (Inr x, c') \<and> f x c' = (Inr y, c)"
  by (cases m) (auto simp: and_then_def split: sum.splits)

lemma and_then_pure_Inr:
  "and_then (m, c) f = (Inr y, c') \<Longrightarrow> \<exists>x. m = Inr x \<and> f x c = (Inr y, c')"
  by (cases m) (auto simp: and_then_def)

lemma etapas_externas_Inr:
  assumes "etapas_externas E origem destino = (Inr rs, calls)"
  shows "\<exists>c4. calls = c4 @ [Secundaria_POST (origem_lat rs) (origem_lon rs) (destino_lat rs) (destino_lon rs)]
           \<and> 4 \<le> length c4
           \<and> (\<forall>dkm. resultado rs = Inr dkm \<longrightarrow>
                (\<exists>res v. remote E (length c4)
                             (Secundaria_POST (origem_lat rs) (origem_lon rs) (destino_lat rs) (destino_lon rs))
                           = Response 200 (Some res)
                         \<and> dict_get res ''distancia_km'' JNull = Inr v \<and> py_float E v = Inr dkm))
           \<and> (\<forall>reply. resultado rs = Inl reply \<longrightarrow>
                (\<exists>s body. remote E (length c4)
                             (Secundaria_POST (origem_lat rs) (origem_lon rs) (destino_lat rs) (destino_lon rs))
                           = Response s body
                         \<and> s \<noteq> 200 \<and> reply = (502, Falha_API_Secundaria s)))"
proof -
  from assms obtain eo c1 where 1: "via_cep E origem [] = (Inr eo, c1)"
    and r1: "and_then (via_cep E destino c1) (\<lambda>ed calls2.
     and_then (endereco_para_query eo, calls2) (\<lambda>q_origem calls2a.
     and_then (endereco_para_query ed, calls2a) (\<lambda>q_destino calls2b.
     and_then (geocode_osm E q_origem calls2b) (\<lambda>p1 calls3.
     and_then (geocode_osm E q_destino calls3) (\<lambda>p2 calls4.
     and_then (chamar_secundaria E (fst p1) (snd p1) (fst p2) (snd p2) calls4) (\<lambda>r calls5.
       (Inr \<lparr>end_origem = eo, end_destino = ed,
             origem_lat = fst p1, origem_lon = snd p1,
             destino_lat = fst p2, destino_lon = snd p2, resultado = r\<rparr>, calls5))))))) = (Inr rs, calls)"
    unfolding etapas_externas_def by (blast dest: and_then_Inr)
  from r1 obtain ed c2 where 2: "via_cep E destino c1 = (Inr ed, c2)"
    and r2: "and_then (endereco_para_query eo, c2) (\<lambda>q_origem calls2a.
     and_then (endereco_para_query ed, calls2a) (\<lambda>q_destino calls2b.
     and_then (geocode_osm E q_origem calls2b) (\<lambda>p1 calls3.
     and_then (geocode_osm E q_destino calls3) (\<lambda>p2 calls4.
     and_then (chamar_secundaria E (fst p1) (snd p1) (fst p2) (snd p2) calls4) (\<lambda>r calls5.
       (Inr \<lparr>end_origem = eo, end_destino = ed,
             origem_lat = fst p1, origem_lon = snd p1,
             destino_lat = fst p2, destino_lon = snd p2, resultado = r\<rparr>, calls5)))))) = (Inr rs, calls)"
    by (blast dest: and_then_Inr)
  from r2 obtain qo where r3: "and_then (endereco_para_query ed, c2) (\<lambda>q_destino calls2b.
     and_then (geocode_osm E qo calls2b) (\<lambda>p1 calls3.
     and_then (geocode_osm E q_destino calls3) (\<lambda>p2 calls4.
     and_then (chamar_secundaria E (fst p1) (snd p1) (fst p2) (snd p2) calls4) (\<lambda>r calls5.
       (Inr \<lparr>end_origem = eo, end_destino = ed,
             origem_lat = fst p1, origem_lon = snd p1,
             destino_lat = fst p2, destino_lon = snd p2, resultado = r\<rparr>, calls5))))) = (Inr rs, calls)"
    by (blast dest: and_then_pure_Inr)
  from r3 obtain qd where r4: "and_then (geocode_osm E qo c2) (\<lambda>p1 calls3.
     and_then (geocode_osm E qd calls3) (\<lambda>p2 calls4.
     and_then (chamar_secundaria E (fst p1) (snd p1) (fst p2) (snd p2) calls4) (\<lambda>r calls5.
       (Inr \<lparr>end_origem = eo, end_destino = ed,
             origem_lat = fst p1, origem_lon = snd p1,
             destino_lat = fst p2, destino_lon = snd p2, resultado = r\<rparr>, calls5)))) = (Inr rs, calls)"
    by (blast dest: and_then_pure_Inr)
  from r4 obtain p1 c3 where 3: "geocode_osm E qo c2 = (Inr p1, c3)"
    and r5: "and_then (geocode_osm E qd c3) (\<lambda>p2 calls4.
     and_then (chamar_secundaria E (fst p1) (snd p1) (fst p2) (snd p2) calls4) (\<lambda>r calls5.
       (Inr \<lparr>end_origem = eo, end_destino = ed,
             origem_lat = fst p1, origem_lon = snd p1,
             destino_lat = fst p2, destino_lon = snd p2, resultado = r\<rparr>, calls5))) = (Inr rs, calls)"
    by (blast dest: and_then_Inr)
  from r5 obtain p2 c4 where 4: "geocode_osm E qd c3 = (Inr p2, c4)"
    and r6: "and_then (chamar_secundaria E (fst p1) (snd p1) (fst p2) (snd p2) c4) (\<lambda>r calls5.
       (Inr \<lparr>end_origem = eo, end_destino = ed,
             origem_lat = fst p1, origem_lon = snd p1,
             destino_lat = fst p2, destino_lon = snd p2, resultado = r\<rparr>, calls5)) = (Inr rs, calls)"
    by (blast dest: and_then_Inr)
  from r6 obtain r where 5: "chamar_secundaria E (fst p1) (snd p1) (fst p2) (snd p2) c4 = (Inr r, calls)"
    and rs: "rs = \<lparr>end_origem = eo, end_destino = ed,
             origem_lat = fst p1, origem_lon = snd p1,
             destino_lat = fst p2, destino_lon = snd p2, resultado = r\<rparr>"
    by (auto dest: and_then_Inr)
  have l1: "length c1 = 1" using via_cep_calls [of E origem "[]"] 1 by simp
  have l2: "length c2 = 2" using via_cep_calls [of E destino c1] 2 l1 by simp
  have l3: "length c2 < length c3" using geocode_osm_grows [OF 3] .
  have l4: "length c3 < length c4" using geocode_osm_grows [OF 4] .
  have c: "calls = c4 @ [Secundaria_POST (fst p1) (snd p1) (fst p2) (snd p2)]"
    using chamar_secundaria_calls [of E "fst p1" "snd p1" "fst p2" "snd p2" c4] 5 by simp
  have "\<forall>dkm. r = Inr dkm \<longrightarrow>
                (\<exists>res v. remote E (length c4) (Secundaria_POST (fst p1) (snd p1) (fst p2) (snd p2))
                           = Response 200 (Some res)
                         \<and> dict_get res ''distancia_km'' JNull = Inr v \<and> py_float E v = Inr dkm)"
    using chamar_secundaria_Inr_Inr 5 by blast
  moreover have "\<forall>reply. r = Inl reply \<longrightarrow>
                (\<exists>s body. remote E (length c4) (Secundaria_POST (fst p1) (snd p1) (fst p2) (snd p2))
                           = Response s body
                         \<and> s \<noteq> 200 \<and> reply = (502, Falha_API_Secundaria s))"
    using chamar_secundaria_Inr_Inl 5 by blast
  ultimately show ?thesis using c l2 l3 l4 unfolding rs by simp
qed

lemma strip_Nil: "strip [] = []"
  by (simp add: strip_def)

lemma em_branco_strip:
  "em_branco kvs k \<Longrightarrow> strip (py_str E (case map_of kvs k of None \<Rightarrow> JStr [] | Some v \<Rightarrow> v)) = []"
  by (auto simp: em_branco_def py_str_def strip_Nil split: option.splits json.splits)

lemma missing_input:
  assumes "json_or_empty req = JObj kvs" and "em_branco kvs ''origem'' \<or> em_branco kvs ''destino''"
  shows "distancia_por_cep E db req = ((400, Informe_origem_destino), db, [])"
proof -
  have "ler_corpo E req =
      Inr (strip (py_str E (case map_of kvs ''origem'' of None \<Rightarrow> JStr [] | Some v \<Rightarrow> v)),
           strip (py_str E (case map_of kvs ''destino'' of None \<Rightarrow> JStr [] | Some v \<Rightarrow> v)),
           (case map_of kvs ''observacoes'' of None \<Rightarrow> JNull | Some v \<Rightarrow> v))"
    by (simp add: ler_corpo_def assms(1) try_bind_def)
  then show ?thesis
    using assms(2) em_branco_strip [of kvs _ E]
    by (auto simp: distancia_por_cep_def distancia_por_cep_try_def)
qed

lemma persistir_Inr:
  assumes "persistir E db origem destino obs rs dkm = Inr (reply, db')"
  shows "\<exists>r. reply = (200, Criada r (end_origem rs) (end_destino rs) (round3 E (distancia_km r)) obs)
           \<and> linhas db' = linhas db @ [r] \<and> consulta_id r = next_id db
           \<and> lat1 r = origem_lat rs \<and> lon1 r = origem_lon rs
           \<and> lat2 r = destino_lat rs \<and> lon2 r = destino_lon rs
           \<and> distancia_km r = dkm \<and> cep_origem r = origem \<and> cep_destino r = destino
           \<and> criado_em r = utcnow E \<and> bind_text E obs = Inr (observacoes r)"
  using assms
  by (cases "bind_text E obs")
     (auto simp: persistir_def try_bind_def insert_consulta_def Let_def split: if_splits)

lemma pipeline_outcome:
  "case distancia_por_cep E db req of
     ((status, reply), db', calls) \<Rightarrow>
       (status \<noteq> 200 \<longrightarrow> db' = db)
       \<and> (status = 200 \<longrightarrow>
            (\<exists>r eo ed obs.
               reply = Criada r eo ed (round3 E (distancia_km r)) obs
               \<and> linhas db' = linhas db @ [r] \<and> consulta_id r = next_id db
               \<and> 5 \<le> length calls
               \<and> last calls = Secundaria_POST (lat1 r) (lon1 r) (lat2 r) (lon2 r)
               \<and> (\<exists>res v. remote E (length calls - 1) (last calls) = Response 200 (Some res)
                     \<and> dict_get res ''distancia_km'' JNull = Inr v
                     \<and> py_float E v = Inr (distancia_km r))))"
proof (cases "ler_corpo E req")
  case (Inl e)
  then have "e = AttributeError" by (rule ler_corpo_exc)
  with Inl show ?thesis
    by (simp add: distancia_por_cep_def distancia_por_cep_try_def)
next
  case (Inr t)
  obtain origem destino obs where t: "t = (origem, destino, obs)" by (cases t) auto
  note lc = Inr [unfolded t]
  show ?thesis
  proof (cases "origem = [] \<or> destino = []")
    case True
    with lc show ?thesis
      by (simp add: distancia_por_cep_def distancia_por_cep_try_def)
  next
    case False
    obtain x calls where ee: "etapas_externas E origem destino = (x, calls)"
      by (cases "etapas_externas E origem destino") auto
    show ?thesis
    proof (cases x)
      case (Inl e)
      with lc False ee show ?thesis
        by (cases e rule: distancia_por_cep_except.cases)
           (simp_all add: distancia_por_cep_def distancia_por_cep_try_def)
    next
      case (Inr rs)
      note ee' = ee [unfolded Inr]
      from etapas_externas_Inr [OF ee'] obtain c4 where
        c: "calls = c4 @ [Secundaria_POST (origem_lat rs) (origem_lon rs) (destino_lat rs) (destino_lon rs)]"
        and l: "4 \<le> length c4"
        and d: "\<forall>dkm. resultado rs = Inr dkm \<longrightarrow>
                (\<exists>res v. remote E (length c4)
                             (Secundaria_POST (origem_lat rs) (origem_lon rs) (destino_lat rs) (destino_lon rs))
                           = Response 200 (Some res)
                         \<and> dict_get res ''distancia_km'' JNull = Inr v \<and> py_float E v = Inr dkm)"
        and f: "\<forall>reply. resultado rs = Inl reply \<longrightarrow>
                (\<exists>s body. remote E (length c4)
                             (Secundaria_POST (origem_lat rs) (origem_lon rs) (destino_lat rs) (destino_lon rs))
                           = Response s body
                         \<and> s \<noteq> 200 \<and> reply = (502, Falha_API_Secundaria s))"
        by blast
      show ?thesis
      proof (cases "resultado rs")
        case (Inl reply)
        with f have "\<exists>s. reply = (502, Falha_API_Secundaria s)"
          by blast
        with lc False ee' Inl show ?thesis
          by (auto simp: distancia_por_cep_def distancia_por_cep_try_def)
      next
        case (Inr dkm)
        show ?thesis
        proof (cases "persistir E db origem destino obs rs dkm")
          case (Inl e)
          then have "distancia_por_cep_except e = (500, Erro_inesperado e)" by (rule persistir_exc)
          with lc False ee' Inr Inl show ?thesis
            by (simp add: distancia_por_cep_def distancia_por_cep_try_def)
        next
          case pr: (Inr p)
          obtain reply db' where p: "p = (reply, db')" by (cases p) auto
          from persistir_Inr [OF pr [unfolded p]] obtain r where
            r: "reply = (200, Criada r (end_origem rs) (end_destino rs) (round3 E (distancia_km r)) obs)"
            "linhas db' = linhas db @ [r]" "consulta_id r = next_id db"
            "lat1 r = origem_lat rs" "lon1 r = origem_lon rs"
            "lat2 r = destino_lat rs" "lon2 r = destino_lon rs" "distancia_km r = dkm"
            by blast
          have "distancia_por_cep E db req = (reply, db', calls)"
            using lc False ee' Inr pr p
            by (simp add: distancia_por_cep_def distancia_por_cep_try_def)
          with r c l d Inr show ?thesis by auto
        qed
      qed
    qed
  qed
qed

lemmas run_defs =
  distancia_por_cep_def distancia_por_cep_try_def ler_corpo_def etapas_externas_def and_then_def
  via_cep_def requests_call_def geocode_osm_def search_def coords_of_def chamar_secundaria_def
  persistir_def insert_consulta_def next_id_def endereco_para_query_def py_join_def try_bind_def
  py_or_def json_or_empty_def strip_def isspace_def remove_hyphens_def py_str_def mundo_def rede_def
  banco_vazio_def corpo_exemplo_def endereco_se_def achado_def partes_of_def py_split_def last3_def
  Let_def

lemma run_ok:
  "distancia_por_cep
     (mundo (rede (Response 200 (Some endereco_se)) (Response 200 (Some achado))
                  (Response 200 (Some (JObj [(''distancia_km'', JFloat (Double 357.75))])))))
     banco_vazio corpo_exemplo
   = ((200, Criada \<lparr>consulta_id = 1, cep_origem = ''01001-000'', cep_destino = ''20040-020'',
                    lat1 = Double (- 23.5), lon1 = Double (- 46.625),
                    lat2 = Double (- 23.5), lon2 = Double (- 46.625),
                    distancia_km = Double 357.75, criado_em = ''2024-05-01T12:00:00Z'',
                    observacoes = Some ''Teste''\<rparr>
              endereco_se endereco_se (Double 357.75) (JStr ''Teste'')),
      \<lparr>linhas = [\<lparr>consulta_id = 1, cep_origem = ''01001-000'', cep_destino = ''20040-020'',
                    lat1 = Double (- 23.5), lon1 = Double (- 46.625),
                    lat2 = Double (- 23.5), lon2 = Double (- 46.625),
                    distancia_km = Double 357.75, criado_em = ''2024-05-01T12:00:00Z'',
                    observacoes = Some ''Teste''\<rparr>], seq = 1\<rparr>,
      [ViaCEP_GET ''01001000'', ViaCEP_GET ''20040020'',
       Nominatim_GET ''Praca da Se, Se, Sao Paulo, SP, Brazil'',
       Nominatim_GET ''Praca da Se, Se, Sao Paulo, SP, Brazil'',
       Secundaria_POST (Double (- 23.5)) (Double (- 46.625)) (Double (- 23.5)) (Double (- 46.625))])"
  by (simp add: run_defs)

lemma run_503:
  "distancia_por_cep
     (mundo (rede (Response 503 None) (Response 200 (Some achado))
                  (Response 200 (Some (JObj [(''distancia_km'', JFloat (Double 357.75))])))))
     banco_vazio corpo_exemplo
   = ((400, Erro_valor (ViaCEP_HTTP 503)), banco_vazio, [ViaCEP_GET ''01001000''])"
  by (simp add: run_defs)

lemma run_missing_field:
  "distancia_por_cep
     (mundo (rede (Response 200 (Some endereco_se)) (Response 200 (Some achado))
                  (Response 200 (Some (JObj [(''origem'', JNull)])))))
     banco_vazio corpo_exemplo
   = ((500, Erro_inesperado TypeError), banco_vazio,
      [ViaCEP_GET ''01001000'', ViaCEP_GET ''20040020'',
       Nominatim_GET ''Praca da Se, Se, Sao Paulo, SP, Brazil'',
       Nominatim_GET ''Praca da Se, Se, Sao Paulo, SP, Brazil'',
       Secundaria_POST (Double (- 23.5)) (Double (- 46.625)) (Double (- 23.5)) (Double (- 46.625))])"
  by (simp add: run_defs)

lemma except_CEP_invalido:
  "distancia_por_cep_except e = (400, Erro_valor CEP_invalido) \<Longrightarrow> e = ValueError CEP_invalido"
  by (cases e rule: distancia_por_cep_except.cases) simp_all

lemma pipeline_CEP_invalido:
  assumes lc: "ler_corpo E req = Inr (origem, destino, obs)" and ne: "origem \<noteq> []" "destino \<noteq> []"
    and r: "fst (distancia_por_cep E db req) = (400, Erro_valor CEP_invalido)"
  shows "flagged E 0 origem \<or> flagged E 1 destino"
proof -
  obtain x calls where ee: "etapas_externas E origem destino = (x, calls)"
    by (cases "etapas_externas E origem destino") auto
  show ?thesis
  proof (cases x)
    case (Inl e)
    with lc ne ee r have "distancia_por_cep_except e = (400, Erro_valor CEP_invalido)"
      by (simp add: distancia_por_cep_def distancia_por_cep_try_def)
    then have "e = ValueError CEP_invalido" by (rule except_CEP_invalido)
    with ee Inl show ?thesis using etapas_externas_CEP_invalido by blast
  next
    case (Inr rs)
    note ee' = ee [unfolded Inr]
    show ?thesis
    proof (cases "resultado rs")
      case (Inl reply)
      with etapas_externas_Inr [OF ee'] have "\<exists>s. reply = (502, Falha_API_Secundaria s)" by blast
      with lc ne ee' Inl r show ?thesis
        by (auto simp: distancia_por_cep_def distancia_por_cep_try_def)
    next
      case dk: (Inr dkm)
      show ?thesis
      proof (cases "persistir E db origem destino obs rs dkm")
        case (Inl e)
        then have "distancia_por_cep_except e = (500, Erro_inesperado e)" by (rule persistir_exc)
        with lc ne ee' dk Inl r show ?thesis
          by (simp add: distancia_por_cep_def distancia_por_cep_try_def)
      next
        case pr: (Inr p)
        obtain reply db' where p: "p = (reply, db')" by (cases p) auto
        from persistir_Inr [OF pr [unfolded p]] have "fst reply = 200" by auto
        with lc ne ee' dk pr p r show ?thesis
          by (simp add: distancia_por_cep_def distancia_por_cep_try_def)
      qed
    qed
  qed
qed

text \<open>
  Claim C1, as amended. For the postal codes read from the request body, both non-empty:
  when the call to the address lookup service raises (no response within the timeout,
  transport error) the endpoint replies 502; when the service answers with a status
  other than 200 the endpoint replies 400 with the message that names the status (the
  code raises \<^verbatim>\<open>ValueError\<close> for it); when the service flags the code the endpoint
  replies 400 with the invalid-code message. The same holds for the destination code
  once the origin was resolved. The invalid-code reply is given only when the service
  flagged one of the two codes.
\<close>

theorem via_cep_failure_statuses:
  assumes lc: "ler_corpo E req = Inr (origem, destino, obs)" and ne: "origem \<noteq> []" "destino \<noteq> []"
  shows
    "(remote E 0 (ViaCEP_GET (strip (remove_hyphens origem))) = NoResponse \<longrightarrow>
        fst (distancia_por_cep E db req) = (502, Falha_servicos_externos))
     \<and> (\<forall>s b. remote E 0 (ViaCEP_GET (strip (remove_hyphens origem))) = Response s b \<and> s \<noteq> 200 \<longrightarrow>
        fst (distancia_por_cep E db req) = (400, Erro_valor (ViaCEP_HTTP s)))
     \<and> (flagged E 0 origem \<longrightarrow>
        fst (distancia_por_cep E db req) = (400, Erro_valor CEP_invalido))
     \<and> (\<forall>eo. fst (via_cep E origem []) = Inr eo \<longrightarrow>
          (remote E 1 (ViaCEP_GET (strip (remove_hyphens destino))) = NoResponse \<longrightarrow>
             fst (distancia_por_cep E db req) = (502, Falha_servicos_externos))
          \<and> (\<forall>s b. remote E 1 (ViaCEP_GET (strip (remove_hyphens destino))) = Response s b \<and> s \<noteq> 200 \<longrightarrow>
             fst (distancia_por_cep E db req) = (400, Erro_valor (ViaCEP_HTTP s)))
          \<and> (flagged E 1 destino \<longrightarrow>
             fst (distancia_por_cep E db req) = (400, Erro_valor CEP_invalido)))
     \<and> (fst (distancia_por_cep E db req) = (400, Erro_valor CEP_invalido) \<longrightarrow>
          flagged E 0 origem \<or> flagged E 1 destino)"
proof -
  let ?c1 = "[ViaCEP_GET (strip (remove_hyphens origem))]"
  have first: "\<And>e. fst (via_cep E origem []) = Inl e \<Longrightarrow>
      fst (distancia_por_cep E db req) = distancia_por_cep_except e"
    using pipeline_first_fails [OF lc ne] by simp
  have second: "\<And>eo e. fst (via_cep E origem []) = Inr eo \<Longrightarrow> fst (via_cep E destino ?c1) = Inl e \<Longrightarrow>
      fst (distancia_por_cep E db req) = distancia_por_cep_except e"
    using pipeline_second_fails [OF lc ne] by simp
  have a1: "remote E 0 (ViaCEP_GET (strip (remove_hyphens origem))) = NoResponse \<longrightarrow>
        fst (distancia_por_cep E db req) = (502, Falha_servicos_externos)"
    using via_cep_NoResponse [of E "[]" origem] first by auto
  have a2: "\<forall>s b. remote E 0 (ViaCEP_GET (strip (remove_hyphens origem))) = Response s b \<and> s \<noteq> 200 \<longrightarrow>
        fst (distancia_por_cep E db req) = (400, Erro_valor (ViaCEP_HTTP s))"
    using via_cep_status [of E "[]" origem] first by auto
  have a3: "flagged E 0 origem \<longrightarrow>
        fst (distancia_por_cep E db req) = (400, Erro_valor CEP_invalido)"
    using via_cep_CEP_invalido_iff [of E origem "[]"] first by auto
  have b: "\<forall>eo. fst (via_cep E origem []) = Inr eo \<longrightarrow>
          (remote E 1 (ViaCEP_GET (strip (remove_hyphens destino))) = NoResponse \<longrightarrow>
             fst (distancia_por_cep E db req) = (502, Falha_servicos_externos))
          \<and> (\<forall>s b. remote E 1 (ViaCEP_GET (strip (remove_hyphens destino))) = Response s b \<and> s \<noteq> 200 \<longrightarrow>
             fst (distancia_por_cep E db req) = (400, Erro_valor (ViaCEP_HTTP s)))
          \<and> (flagged E 1 destino \<longrightarrow>
             fst (distancia_por_cep E db req) = (400, Erro_valor CEP_invalido))"
    using via_cep_NoResponse [of E ?c1 destino] via_cep_status [of E ?c1 destino]
      via_cep_CEP_invalido_iff [of E destino ?c1] second
    by auto
  have c: "fst (distancia_por_cep E db req) = (400, Erro_valor CEP_invalido) \<longrightarrow>
          flagged E 0 origem \<or> flagged E 1 destino"
    using pipeline_CEP_invalido [OF lc ne] by blast
  from a1 a2 a3 b c show ?thesis by blast
qed

text \<open>
  Claim C1 as stated fails: the address lookup service answers 503 and the endpoint
  replies 400, not 502.
\<close>

theorem via_cep_non_success_counterexample:
  "fst (distancia_por_cep
         (mundo (rede (Response 503 None) (Response 200 (Some achado))
                      (Response 200 (Some (JObj [(''distancia_km'', JFloat (Double 357.75))])))))
         banco_vazio corpo_exemplo)
     = (400, Erro_valor (ViaCEP_HTTP 503))
   \<and> fst (fst (distancia_por_cep
         (mundo (rede (Response 503 None) (Response 200 (Some achado))
                      (Response 200 (Some (JObj [(''distancia_km'', JFloat (Double 357.75))])))))
         banco_vazio corpo_exemplo)) \<noteq> 502"
  using run_503 by simp

text \<open>
  A service that does not answer, one that answers 503 and one that flags the code.
\<close>

theorem via_cep_failure_statuses_witness:
  "ler_corpo (mundo (rede NoResponse NoResponse NoResponse)) corpo_exemplo
     = Inr (''01001-000'', ''20040-020'', JStr ''Teste'')
   \<and> fst (distancia_por_cep (mundo (rede NoResponse NoResponse NoResponse)) banco_vazio corpo_exemplo)
       = (502, Falha_servicos_externos)
   \<and> fst (distancia_por_cep (mundo (rede (Response 503 None) NoResponse NoResponse)) banco_vazio corpo_exemplo)
       = (400, Erro_valor (ViaCEP_HTTP 503))
   \<and> flagged (mundo (rede (Response 200 (Some (JObj [(''erro'', JBool True)]))) NoResponse NoResponse))
        0 ''01001-000''
   \<and> fst (distancia_por_cep
            (mundo (rede (Response 200 (Some (JObj [(''erro'', JBool True)]))) NoResponse NoResponse))
            banco_vazio corpo_exemplo)
       = (400, Erro_valor CEP_invalido)"
proof -
  have lc: "\<And>r. ler_corpo (mundo r) corpo_exemplo = Inr (''01001-000'', ''20040-020'', JStr ''Teste'')"
    by (simp add: ler_corpo_def corpo_exemplo_def json_or_empty_def py_or_def try_bind_def py_str_def
        strip_def isspace_def)
  have s: "strip (remove_hyphens ''01001-000'') = ''01001000''"
    by (simp add: strip_def remove_hyphens_def isspace_def)
  have r: "\<And>r. remote (mundo r) = r"
    by (simp add: mundo_def)
  have f: "flagged (mundo (rede (Response 200 (Some (JObj [(''erro'', JBool True)]))) NoResponse NoResponse))
        0 ''01001-000''"
    by (simp add: flagged_def r s rede_def)
  have t1: "fst (distancia_por_cep (mundo (rede NoResponse NoResponse NoResponse)) banco_vazio corpo_exemplo)
       = (502, Falha_servicos_externos)"
    using via_cep_failure_statuses [OF lc, of "rede NoResponse NoResponse NoResponse" banco_vazio,
        THEN conjunct1]
    by (simp add: r s rede_def)
  have t2: "fst (distancia_por_cep (mundo (rede (Response 503 None) NoResponse NoResponse)) banco_vazio corpo_exemplo)
       = (400, Erro_valor (ViaCEP_HTTP 503))"
    using via_cep_failure_statuses [OF lc, of "rede (Response 503 None) NoResponse NoResponse" banco_vazio,
        THEN conjunct2, THEN conjunct1]
    by (simp add: r s rede_def)
  have t3: "fst (distancia_por_cep
            (mundo (rede (Response 200 (Some (JObj [(''erro'', JBool True)]))) NoResponse NoResponse))
            banco_vazio corpo_exemplo)
       = (400, Erro_valor CEP_invalido)"
    using via_cep_failure_statuses [OF lc,
        of "rede (Response 200 (Some (JObj [(''erro'', JBool True)]))) NoResponse NoResponse" banco_vazio,
        THEN conjunct2, THEN conjunct2, THEN conjunct1] f
    by simp
  from lc t1 t2 f t3 show ?thesis by simp
qed

text \<open>
  Claim C3, amended. Whenever the request body is absent, not JSON, falsy or a JSON
  object, and one of the two postal codes is absent from it or is a string that is
  empty after trimming, the endpoint replies 400 with the missing-input message, makes
  no external call and leaves the store as it was. For every request: a reply other
  than 200 leaves the store as it was; a reply 200 added exactly one record, the list of
  external calls then has at least five calls and ends with the call to the secondary
  API that carried the record's two coordinate pairs and was answered 200 with the
  record's distance.
\<close>

theorem distancia_por_cep_persists_last:
  "(\<forall>kvs. json_or_empty req = JObj kvs \<and> (em_branco kvs ''origem'' \<or> em_branco kvs ''destino'') \<longrightarrow>
        distancia_por_cep E db req = ((400, Informe_origem_destino), db, []))
   \<and> (case distancia_por_cep E db req of
        ((status, reply), db', calls) \<Rightarrow>
          (status \<noteq> 200 \<longrightarrow> db' = db)
          \<and> (status = 200 \<longrightarrow>
               (\<exists>r eo ed obs.
                  reply = Criada r eo ed (round3 E (distancia_km r)) obs
                  \<and> linhas db' = linhas db @ [r] \<and> consulta_id r = next_id db
                  \<and> 5 \<le> length calls
                  \<and> last calls = Secundaria_POST (lat1 r) (lon1 r) (lat2 r) (lon2 r)
                  \<and> (\<exists>res v. remote E (length calls - 1) (last calls) = Response 200 (Some res)
                        \<and> dict_get res ''distancia_km'' JNull = Inr v
                        \<and> py_float E v = Inr (distancia_km r)))))"
  using missing_input [where E = E and db = db and req = req]
    pipeline_outcome [where E = E and db = db and req = req]
  by blast

text \<open>
  The example of the specification (an empty origin), a run that fails at the first
  stage, and a run that succeeds on the empty store.
\<close>

theorem distancia_por_cep_persists_last_witness:
  "em_branco [(''origem'', JStr ''''), (''destino'', JStr ''20040-020'')] ''origem''
   \<and> distancia_por_cep (mundo (rede NoResponse NoResponse NoResponse)) banco_vazio
        (Some (JObj [(''origem'', JStr ''''), (''destino'', JStr ''20040-020'')]))
       = ((400, Informe_origem_destino), banco_vazio, [])
   \<and> snd (distancia_por_cep
         (mundo (rede (Response 503 None) (Response 200 (Some achado))
                      (Response 200 (Some (JObj [(''distancia_km'', JFloat (Double 357.75))])))))
         banco_vazio corpo_exemplo) = (banco_vazio, [ViaCEP_GET ''01001000''])
   \<and> linhas (fst (snd (distancia_por_cep
         (mundo (rede (Response 200 (Some endereco_se)) (Response 200 (Some achado))
                      (Response 200 (Some (JObj [(''distancia_km'', JFloat (Double 357.75))])))))
         banco_vazio corpo_exemplo)))
       = [\<lparr>consulta_id = 1, cep_origem = ''01001-000'', cep_destino = ''20040-020'',
            lat1 = Double (- 23.5), lon1 = Double (- 46.625),
                    lat2 = Double (- 23.5), lon2 = Double (- 46.625),
            distancia_km = Double 357.75, criado_em = ''2024-05-01T12:00:00Z'',
            observacoes = Some ''Teste''\<rparr>]"
proof -
  have j: "json_or_empty (Some (JObj [(''origem'', JStr ''''), (''destino'', JStr ''20040-020'')]))
           = JObj [(''origem'', JStr ''''), (''destino'', JStr ''20040-020'')]"
    by (simp add: json_or_empty_def py_or_def)
  have b: "em_branco [(''origem'', JStr ''''), (''destino'', JStr ''20040-020'')] ''origem''"
    by (simp add: em_branco_def strip_def)
  have m: "distancia_por_cep (mundo (rede NoResponse NoResponse NoResponse)) banco_vazio
        (Some (JObj [(''origem'', JStr ''''), (''destino'', JStr ''20040-020'')]))
       = ((400, Informe_origem_destino), banco_vazio, [])"
    using distancia_por_cep_persists_last
            [of "Some (JObj [(''origem'', JStr ''''), (''destino'', JStr ''20040-020'')])"
                "mundo (rede NoResponse NoResponse NoResponse)" banco_vazio, THEN conjunct1] j b
    by blast
  have f: "snd (distancia_por_cep
         (mundo (rede (Response 503 None) (Response 200 (Some achado))
                      (Response 200 (Some (JObj [(''distancia_km'', JFloat (Double 357.75))])))))
         banco_vazio corpo_exemplo) = (banco_vazio, [ViaCEP_GET ''01001000''])"
    using distancia_por_cep_persists_last
            [of corpo_exemplo "mundo (rede (Response 503 None) (Response 200 (Some achado))
                      (Response 200 (Some (JObj [(''distancia_km'', JFloat (Double 357.75))]))))" banco_vazio,
             THEN conjunct2] run_503
    by simp
  have k: "linhas (fst (snd (distancia_por_cep
         (mundo (rede (Response 200 (Some endereco_se)) (Response 200 (Some achado))
                      (Response 200 (Some (JObj [(''distancia_km'', JFloat (Double 357.75))])))))
         banco_vazio corpo_exemplo)))
       = [\<lparr>consulta_id = 1, cep_origem = ''01001-000'', cep_destino = ''20040-020'',
            lat1 = Double (- 23.5), lon1 = Double (- 46.625),
                    lat2 = Double (- 23.5), lon2 = Double (- 46.625),
            distancia_km = Double 357.75, criado_em = ''2024-05-01T12:00:00Z'',
            observacoes = Some ''Teste''\<rparr>]"
    using distancia_por_cep_persists_last
            [of corpo_exemplo "mundo (rede (Response 200 (Some endereco_se)) (Response 200 (Some achado))
                      (Response 200 (Some (JObj [(''distancia_km'', JFloat (Double 357.75))]))))" banco_vazio,
             THEN conjunct2] run_ok
    by (simp add: banco_vazio_def)
  from b m f k show ?thesis by blast
qed

text \<open>
  The claim as first worded, for every postal code that is absent, fails where the
  code is given as null (\<^verbatim>\<open>str(None)\<close> is the text \<^verbatim>\<open>None\<close>, which is not empty:
  the address lookup is called with it) and where the body is a JSON list (a list has
  no \<^verbatim>\<open>get\<close>: the reply is the unexpected error 500, not the missing-input 400).
\<close>

theorem distancia_por_cep_null_code_counterexample:
  "distancia_por_cep (mundo (rede NoResponse NoResponse NoResponse)) banco_vazio
       (Some (JObj [(''origem'', JNull), (''destino'', JStr ''20040-020'')]))
     = ((502, Falha_servicos_externos), banco_vazio, [ViaCEP_GET ''None''])
   \<and> distancia_por_cep (mundo (rede NoResponse NoResponse NoResponse)) banco_vazio
       (Some (JArr [JStr ''01001-000'', JStr ''20040-020'']))
     = ((500, Erro_inesperado AttributeError), banco_vazio, [])"
  by (simp add: run_defs)
lemma etapas_externas_ate_secundaria:
  assumes "via_cep E origem [] = (Inr eo, c1)"
    and "via_cep E destino c1 = (Inr ed, c2)"
    and "endereco_para_query eo = Inr qo"
    and "endereco_para_query ed = Inr qd"
    and "geocode_osm E qo c2 = (Inr (la1, lo1), c3)"
    and "geocode_osm E qd c3 = (Inr (la2, lo2), c4)"
  shows "etapas_externas E origem destino =
           (case chamar_secundaria E la1 lo1 la2 lo2 c4 of
              (Inl e, c5) \<Rightarrow> (Inl e, c5)
            | (Inr r, c5) \<Rightarrow>
                (Inr \<lparr>end_origem = eo, end_destino = ed, origem_lat = la1, origem_lon = lo1,
                      destino_lat = la2, destino_lon = lo2, resultado = r\<rparr>, c5))"
  by (simp add: etapas_externas_def and_then_def assms split: prod.splits sum.splits)

lemma pipeline_ate_secundaria:
  assumes "ler_corpo E req = Inr (origem, destino, obs)" and "origem \<noteq> []" and "destino \<noteq> []"
    and "via_cep E origem [] = (Inr eo, c1)"
    and "via_cep E destino c1 = (Inr ed, c2)"
    and "endereco_para_query eo = Inr qo"
    and "endereco_para_query ed = Inr qd"
    and "geocode_osm E qo c2 = (Inr (la1, lo1), c3)"
    and "geocode_osm E qd c3 = (Inr (la2, lo2), c4)"
  shows "chamar_secundaria E la1 lo1 la2 lo2 c4 = (Inl e, c5)
           \<Longrightarrow> distancia_por_cep E db req = (distancia_por_cep_except e, db, c5)"
    and "chamar_secundaria E la1 lo1 la2 lo2 c4 = (Inr (Inl reply), c5)
           \<Longrightarrow> distancia_por_cep E db req = (reply, db, c5)"
  using assms(1-3) etapas_externas_ate_secundaria [OF assms(4-9)]
  by (simp_all add: distancia_por_cep_def distancia_por_cep_try_def)

lemma chamar_secundaria_cases:
  "remote E (length c) (Secundaria_POST a b x y) = NoResponse \<Longrightarrow>
     chamar_secundaria E a b x y c = (Inl RequestException, c @ [Secundaria_POST a b x y])"
  "remote E (length c) (Secundaria_POST a b x y) = Response s body \<Longrightarrow> s \<noteq> 200 \<Longrightarrow>
     chamar_secundaria E a b x y c = (Inr (Inl (502, Falha_API_Secundaria s)), c @ [Secundaria_POST a b x y])"
  "remote E (length c) (Secundaria_POST a b x y) = Response 200 None \<Longrightarrow>
     chamar_secundaria E a b x y c = (Inl (ValueError JSONDecode), c @ [Secundaria_POST a b x y])"
  "remote E (length c) (Secundaria_POST a b x y) = Response 200 (Some (JObj kvs)) \<Longrightarrow>
     map_of kvs ''distancia_km'' = None \<Longrightarrow>
     chamar_secundaria E a b x y c = (Inl TypeError, c @ [Secundaria_POST a b x y])"
  "remote E (length c) (Secundaria_POST a b x y) = Response 200 (Some (JObj kvs)) \<Longrightarrow>
     map_of kvs ''distancia_km'' = Some (JStr t) \<Longrightarrow> float_str E t = None \<Longrightarrow>
     chamar_secundaria E a b x y c = (Inl (ValueError Float_invalido), c @ [Secundaria_POST a b x y])"
  by (simp_all add: chamar_secundaria_def requests_call_def try_bind_def)

text \<open>
  Claim C4, as amended. When the pipeline has resolved and geocoded both postal codes
  and calls the secondary API: a response with a status other than 200 makes the
  endpoint reply 502, and so does a call that raises (timeout, transport error). A
  response 200 with a malformed body is not turned into 502: a body that is not JSON
  and a distance that is a non-numeric string give 400 (both raise
  \<^verbatim>\<open>ValueError\<close>), and a JSON object without the field \<^verbatim>\<open>distancia_km\<close> gives
  500 (\<^verbatim>\<open>float(None)\<close> is a \<^verbatim>\<open>TypeError\<close>). The store is left as it was in each
  of these cases.
\<close>

theorem secundaria_failure_statuses:
  assumes "ler_corpo E req = Inr (origem, destino, obs)" and "origem \<noteq> []" and "destino \<noteq> []"
    and "via_cep E origem [] = (Inr eo, c1)"
    and "via_cep E destino c1 = (Inr ed, c2)"
    and "endereco_para_query eo = Inr qo"
    and "endereco_para_query ed = Inr qd"
    and "geocode_osm E qo c2 = (Inr (la1, lo1), c3)"
    and "geocode_osm E qd c3 = (Inr (la2, lo2), c4)"
  shows
    "(\<forall>s body. remote E (length c4) (Secundaria_POST la1 lo1 la2 lo2) = Response s body \<and> s \<noteq> 200 \<longrightarrow>
        distancia_por_cep E db req
          = ((502, Falha_API_Secundaria s), db, c4 @ [Secundaria_POST la1 lo1 la2 lo2]))
     \<and> (remote E (length c4) (Secundaria_POST la1 lo1 la2 lo2) = NoResponse \<longrightarrow>
        distancia_por_cep E db req
          = ((502, Falha_servicos_externos), db, c4 @ [Secundaria_POST la1 lo1 la2 lo2]))
     \<and> (remote E (length c4) (Secundaria_POST la1 lo1 la2 lo2) = Response 200 None \<longrightarrow>
        distancia_por_cep E db req
          = ((400, Erro_valor JSONDecode), db, c4 @ [Secundaria_POST la1 lo1 la2 lo2]))
     \<and> (\<forall>kvs. remote E (length c4) (Secundaria_POST la1 lo1 la2 lo2) = Response 200 (Some (JObj kvs))
              \<and> map_of kvs ''distancia_km'' = None \<longrightarrow>
        distancia_por_cep E db req
          = ((500, Erro_inesperado TypeError), db, c4 @ [Secundaria_POST la1 lo1 la2 lo2]))
     \<and> (\<forall>kvs t. remote E (length c4) (Secundaria_POST la1 lo1 la2 lo2) = Response 200 (Some (JObj kvs))
              \<and> map_of kvs ''distancia_km'' = Some (JStr t) \<and> float_str E t = None \<longrightarrow>
        distancia_por_cep E db req
          = ((400, Erro_valor Float_invalido), db, c4 @ [Secundaria_POST la1 lo1 la2 lo2]))"
  using pipeline_ate_secundaria [OF assms, where db = db]
    chamar_secundaria_cases [where E = E and c = c4 and a = la1 and b = lo1 and x = la2 and y = lo2]
  by (auto simp del: distancia_por_cep_except.simps
      simp add: distancia_por_cep_except.simps [symmetric])

text \<open>
  Claim C4 as stated fails: the secondary API answers 200 with a JSON object that has
  no field \<^verbatim>\<open>distancia_km\<close>, and the endpoint replies 500, not 502.
\<close>

theorem secundaria_malformed_body_counterexample:
  "fst (distancia_por_cep
         (mundo (rede (Response 200 (Some endereco_se)) (Response 200 (Some achado))
                      (Response 200 (Some (JObj [(''origem'', JNull)])))))
         banco_vazio corpo_exemplo)
     = (500, Erro_inesperado TypeError)
   \<and> fst (fst (distancia_por_cep
         (mundo (rede (Response 200 (Some endereco_se)) (Response 200 (Some achado))
                      (Response 200 (Some (JObj [(''origem'', JNull)])))))
         banco_vazio corpo_exemplo)) \<noteq> 502"
  using run_missing_field by simp

text \<open>
  A secondary API that answers 503, and one that answers 200 with the distance
  \<^verbatim>\<open>"abc"\<close>.
\<close>

theorem secundaria_failure_statuses_witness:
  "distancia_por_cep
     (mundo (rede (Response 200 (Some endereco_se)) (Response 200 (Some achado)) (Response 503 None)))
     banco_vazio corpo_exemplo
   = ((502, Falha_API_Secundaria 503), banco_vazio,
      [ViaCEP_GET ''01001000'', ViaCEP_GET ''20040020'',
       Nominatim_GET ''Praca da Se, Se, Sao Paulo, SP, Brazil'',
       Nominatim_GET ''Praca da Se, Se, Sao Paulo, SP, Brazil'',
       Secundaria_POST (Double (- 23.5)) (Double (- 46.625)) (Double (- 23.5)) (Double (- 46.625))])
   \<and> distancia_por_cep
     (mundo (rede (Response 200 (Some endereco_se)) (Response 200 (Some achado))
                  (Response 200 (Some (JObj [(''distancia_km'', JStr ''abc'')])))))
     banco_vazio corpo_exemplo
   = ((400, Erro_valor Float_invalido), banco_vazio,
      [ViaCEP_GET ''01001000'', ViaCEP_GET ''20040020'',
       Nominatim_GET ''Praca da Se, Se, Sao Paulo, SP, Brazil'',
       Nominatim_GET ''Praca da Se, Se, Sao Paulo, SP, Brazil'',
       Secundaria_POST (Double (- 23.5)) (Double (- 46.625)) (Double (- 23.5)) (Double (- 46.625))])"
proof -
  let ?q = "''Praca da Se, Se, Sao Paulo, SP, Brazil''"
  let ?c2 = "[ViaCEP_GET ''01001000'', ViaCEP_GET ''20040020'']"
  have lc: "\<And>r. ler_corpo (mundo r) corpo_exemplo = Inr (''01001-000'', ''20040-020'', JStr ''Teste'')"
    by (simp add: ler_corpo_def corpo_exemplo_def json_or_empty_def py_or_def try_bind_def py_str_def
        strip_def isspace_def)
  have v1: "\<And>sec. via_cep (mundo (rede (Response 200 (Some endereco_se)) (Response 200 (Some achado)) sec))
              ''01001-000'' [] = (Inr endereco_se, [ViaCEP_GET ''01001000''])"
    by (simp add: run_defs)
  have v2: "\<And>sec. via_cep (mundo (rede (Response 200 (Some endereco_se)) (Response 200 (Some achado)) sec))
              ''20040-020'' [ViaCEP_GET ''01001000''] = (Inr endereco_se, ?c2)"
    by (simp add: run_defs)
  have q: "endereco_para_query endereco_se = Inr ?q"
    by (simp add: run_defs)
  have g1: "\<And>sec. geocode_osm (mundo (rede (Response 200 (Some endereco_se)) (Response 200 (Some achado)) sec))
              ?q ?c2 = (Inr (Double (- 23.5), Double (- 46.625)), ?c2 @ [Nominatim_GET ?q])"
    by (simp add: run_defs)
  have g2: "\<And>sec. geocode_osm (mundo (rede (Response 200 (Some endereco_se)) (Response 200 (Some achado)) sec))
              ?q (?c2 @ [Nominatim_GET ?q])
            = (Inr (Double (- 23.5), Double (- 46.625)), ?c2 @ [Nominatim_GET ?q, Nominatim_GET ?q])"
    by (simp add: run_defs)
  have r: "\<And>r. remote (mundo r) = r" "\<And>r. float_str (mundo r) ''abc'' = None"
    by (simp_all add: mundo_def)
  note t = secundaria_failure_statuses [OF lc _ _ v1 v2 q q g1 g2, where db = banco_vazio]
  have a: "distancia_por_cep
     (mundo (rede (Response 200 (Some endereco_se)) (Response 200 (Some achado)) (Response 503 None)))
     banco_vazio corpo_exemplo
   = ((502, Falha_API_Secundaria 503), banco_vazio,
      ?c2 @ [Nominatim_GET ?q, Nominatim_GET ?q] @ [Secundaria_POST (Double (- 23.5)) (Double (- 46.625)) (Double (- 23.5)) (Double (- 46.625))])"
    using t [of "Response 503 None", THEN conjunct1]
    by (simp add: r rede_def)
  have b: "distancia_por_cep
     (mundo (rede (Response 200 (Some endereco_se)) (Response 200 (Some achado))
                  (Response 200 (Some (JObj [(''distancia_km'', JStr ''abc'')])))))
     banco_vazio corpo_exemplo
   = ((400, Erro_valor Float_invalido), banco_vazio,
      ?c2 @ [Nominatim_GET ?q, Nominatim_GET ?q] @ [Secundaria_POST (Double (- 23.5)) (Double (- 46.625)) (Double (- 23.5)) (Double (- 46.625))])"
    using t [of "Response 200 (Some (JObj [(''distancia_km'', JStr ''abc'')]))",
        THEN conjunct2, THEN conjunct2, THEN conjunct2, THEN conjunct2]
    by (simp add: r rede_def)
  from a b show ?thesis by simp
qed

section \<open>Properties of the record endpoints\<close>

lemma sorted_desc_page:
  "sorted_wrt (\<lambda>a b. consulta_id b \<le> consulta_id a) (spec_page rows limit offset)"
proof -
  have "sorted (map consulta_id (sort_key consulta_id rows))"
    by (rule sorted_sort_key)
  then have "sorted_wrt (\<lambda>a b. consulta_id a \<le> consulta_id b) (sort_key consulta_id rows)"
    by (simp add: sorted_map)
  then have "sorted_wrt (\<lambda>a b. consulta_id b \<le> consulta_id a) (rev (sort_key consulta_id rows))"
    by (simp add: sorted_wrt_rev)
  then show ?thesis
    unfolding spec_page_def by (intro sorted_wrt_take sorted_wrt_drop)
qed

lemma spec_page_length:
  "length (spec_page rows limit offset) = min limit (length rows - offset)"
  by (simp add: spec_page_def)

lemma spec_page_subset: "set (spec_page rows limit offset) \<subseteq> set rows"
proof -
  have "set (spec_page rows limit offset) \<subseteq> set (rev (sort_key consulta_id rows))"
    unfolding spec_page_def by (meson set_take_subset set_drop_subset subset_trans)
  then show ?thesis by simp
qed

lemma select_page_bound:
  assumes "0 \<le> n" "n < 2 ^ 63" "0 \<le> offs" "offs < 2 ^ 63"
  shows "select_page d n offs = Inr (spec_page (linhas d) (nat n) (nat offs))"
  using assms by (simp add: select_page_def bind_integer_def try_bind_def spec_page_def Let_def)

lemma select_page_overflow:
  assumes "0 \<le> n" "n < 2 ^ 63" "2 ^ 63 \<le> offs"
  shows "select_page d n offs = Inl OverflowError"
  using assms by (simp add: select_page_def bind_integer_def try_bind_def)

text \<open>
  Claim C8, amended. For every integer limit and offset (each parsed from its query
  argument, or the default 50 and 0 when the argument is absent): when the offset is
  below 2 to the power 63, the listing replies 200 with the page that starts after the
  effective offset (the offset, or 0 when it is negative) in the records ordered by
  identifier, newest first, and has at most the effective limit (the limit clamped
  into the range 1 to 200) of them; the items are records of the store in descending
  order of identifier, never more than 200, and \<^verbatim>\<open>total\<close> is their number. When the
  offset is 2 to the power 63 or more, the listing replies 500 with the unexpected
  error.
\<close>

theorem listar_consultas_page:
  assumes "int_arg E limit_arg 50 = Inr l" and "int_arg E offset_arg 0 = Inr off"
  shows "(off < 2 ^ 63 \<longrightarrow>
            listar_consultas E db limit_arg offset_arg
              = (200, Lista (length (spec_page (linhas db) (nat (clamp_spec 1 200 l))
                                       (nat (if off < 0 then 0 else off))))
                            (spec_page (linhas db) (nat (clamp_spec 1 200 l))
                                       (nat (if off < 0 then 0 else off)))))
         \<and> (2 ^ 63 \<le> off \<longrightarrow>
            listar_consultas E db limit_arg offset_arg = (500, Erro_inesperado OverflowError))
         \<and> 1 \<le> clamp_spec 1 200 l \<and> clamp_spec 1 200 l \<le> 200
         \<and> sorted_wrt (\<lambda>a b. consulta_id b \<le> consulta_id a)
              (spec_page (linhas db) (nat (clamp_spec 1 200 l)) (nat (if off < 0 then 0 else off)))
         \<and> set (spec_page (linhas db) (nat (clamp_spec 1 200 l)) (nat (if off < 0 then 0 else off)))
             \<subseteq> set (linhas db)
         \<and> length (spec_page (linhas db) (nat (clamp_spec 1 200 l)) (nat (if off < 0 then 0 else off)))
             = min (nat (clamp_spec 1 200 l)) (length (linhas db) - nat (if off < 0 then 0 else off))
         \<and> length (spec_page (linhas db) (nat (clamp_spec 1 200 l)) (nat (if off < 0 then 0 else off)))
             \<le> 200
         \<and> int_arg E None 50 = Inr 50 \<and> int_arg E None 0 = Inr 0"
proof -
  let ?l = "clamp_spec 1 200 l"
  let ?o = "if off < 0 then 0 else off"
  have c: "max 1 (min l 200) = ?l" "max 0 off = ?o"
    by (auto simp: clamp_spec_def)
  have r: "1 \<le> ?l" "?l \<le> 200"
    by (auto simp: clamp_spec_def)
  have u: "listar_consultas E db limit_arg offset_arg
             = (case select_page db ?l ?o of
                  Inl e \<Rightarrow> (500, Erro_inesperado e)
                | Inr dados \<Rightarrow> (200, Lista (length dados) dados))"
    unfolding listar_consultas_def by (simp only: assms sum.case Let_def c)
  have a: "off < 2 ^ 63 \<longrightarrow>
            listar_consultas E db limit_arg offset_arg
              = (200, Lista (length (spec_page (linhas db) (nat ?l) (nat ?o)))
                            (spec_page (linhas db) (nat ?l) (nat ?o)))"
  proof
    assume "off < 2 ^ 63"
    then have "select_page db ?l ?o = Inr (spec_page (linhas db) (nat ?l) (nat ?o))"
      using r by (intro select_page_bound) auto
    then show "listar_consultas E db limit_arg offset_arg
              = (200, Lista (length (spec_page (linhas db) (nat ?l) (nat ?o)))
                            (spec_page (linhas db) (nat ?l) (nat ?o)))"
      unfolding u by simp
  qed
  have b: "2 ^ 63 \<le> off \<longrightarrow>
            listar_consultas E db limit_arg offset_arg = (500, Erro_inesperado OverflowError)"
  proof
    assume "2 ^ 63 \<le> off"
    then have "select_page db ?l ?o = Inl OverflowError"
      using r by (intro select_page_overflow) auto
    then show "listar_consultas E db limit_arg offset_arg = (500, Erro_inesperado OverflowError)"
      unfolding u by simp
  qed
  have d: "length (spec_page (linhas db) (nat ?l) (nat ?o)) \<le> 200"
    using r by (simp add: spec_page_length)
  have e: "int_arg E None 50 = Inr 50 \<and> int_arg E None 0 = Inr 0"
    by (simp add: int_arg_def)
  from a b r d e sorted_desc_page [of "linhas db" "nat ?l" "nat ?o"]
    spec_page_subset [of "linhas db" "nat ?l" "nat ?o"]
    spec_page_length [of "linhas db" "nat ?l" "nat ?o"]
  show ?thesis by blast
qed

lemma consulta_id_linha: "consulta_id (linha i) = i"
  by (simp add: linha_def)

text \<open>
  On a store of three records: the limit 0 gives one item, the newest; the limit 9999
  and the default limit give all three, newest first; the offset 2 to the power 63
  gives the unexpected error.
\<close>

theorem listar_consultas_page_witness:
  "int_arg (mundo (rede NoResponse NoResponse NoResponse)) (Some ''0'') 50 = Inr 0
   \<and> listar_consultas (mundo (rede NoResponse NoResponse NoResponse)) banco3 (Some ''0'') None
       = (200, Lista 1 [linha 3])
   \<and> listar_consultas (mundo (rede NoResponse NoResponse NoResponse)) banco3 (Some ''9999'') None
       = (200, Lista 3 [linha 3, linha 2, linha 1])
   \<and> listar_consultas (mundo (rede NoResponse NoResponse NoResponse)) banco3 None None
       = (200, Lista 3 [linha 3, linha 2, linha 1])
   \<and> listar_consultas (mundo (rede NoResponse NoResponse NoResponse)) banco3 None
        (Some ''9223372036854775808'')
       = (500, Erro_inesperado OverflowError)"
proof -
  have i: "\<And>r. int_arg (mundo r) (Some ''0'') 50 = Inr 0"
    "\<And>r. int_arg (mundo r) (Some ''9999'') 50 = Inr 9999"
    "\<And>r d. int_arg (mundo r) None d = Inr d"
    "\<And>r. int_arg (mundo r) (Some ''9223372036854775808'') 0 = Inr (2 ^ 63)"
    by (simp_all add: int_arg_def mundo_def)
  have p: "spec_page (linhas banco3) (Suc 0) 0 = [linha 3]"
    "spec_page (linhas banco3) 200 0 = [linha 3, linha 2, linha 1]"
    "spec_page (linhas banco3) 50 0 = [linha 3, linha 2, linha 1]"
    by (simp_all add: spec_page_def banco3_def consulta_id_linha)
  show ?thesis
    using listar_consultas_page [OF i(1) i(3), of "rede NoResponse NoResponse NoResponse" banco3, THEN conjunct1]
      listar_consultas_page [OF i(2) i(3), of "rede NoResponse NoResponse NoResponse" banco3, THEN conjunct1]
      listar_consultas_page [OF i(3) i(3), of "rede NoResponse NoResponse NoResponse" banco3, THEN conjunct1]
      listar_consultas_page [OF i(3) i(4), of "rede NoResponse NoResponse NoResponse" banco3,
        THEN conjunct2, THEN conjunct1]
    by (simp add: i p clamp_spec_def)
qed

text \<open>
  The claim as first worded, for every integer offset, fails at the offset 2 to the
  power 63: the parameter cannot be bound and the reply is 500, not a page.
\<close>

theorem listar_consultas_offset_counterexample:
  "int_arg (mundo (rede NoResponse NoResponse NoResponse)) (Some ''9223372036854775808'') 0
     = Inr (2 ^ 63)
   \<and> listar_consultas (mundo (rede NoResponse NoResponse NoResponse)) banco3 None
        (Some ''9223372036854775808'')
     = (500, Erro_inesperado OverflowError)"
  by (simp add: listar_consultas_def int_arg_def mundo_def select_page_def bind_integer_def
      try_bind_def)
lemma find_map_update:
  "find (\<lambda>r. consulta_id r = i) (map (\<lambda>r. if consulta_id r = i then r\<lparr>observacoes := n\<rparr> else r) xs)
   = map_option (\<lambda>r. r\<lparr>observacoes := n\<rparr>) (find (\<lambda>r. consulta_id r = i) xs)"
  by (induction xs) auto

lemma update_frame:
  "map (\<lambda>r. r\<lparr>observacoes := None\<rparr>) (map (\<lambda>r. if consulta_id r = i then r\<lparr>observacoes := n\<rparr> else r) xs)
   = map (\<lambda>r. r\<lparr>observacoes := None\<rparr>) xs"
  by (induction xs) auto

lemma update_others:
  "filter (\<lambda>r. consulta_id r \<noteq> i) (map (\<lambda>r. if consulta_id r = i then r\<lparr>observacoes := n\<rparr> else r) xs)
   = filter (\<lambda>r. consulta_id r \<noteq> i) xs"
  by (induction xs) auto

lemma update_absent:
  "\<forall>r \<in> set xs. consulta_id r \<noteq> i \<Longrightarrow>
   map (\<lambda>r. if consulta_id r = i then r\<lparr>observacoes := n\<rparr> else r) xs = xs"
  by (induction xs) auto

lemma filter_absent: "\<forall>r \<in> set xs. consulta_id r \<noteq> i \<Longrightarrow> filter (\<lambda>r. consulta_id r = i) xs = []"
  by (induction xs) auto

lemma find_Some_filter: "find P xs = Some r \<Longrightarrow> filter P xs \<noteq> []"
  by (induction xs) (auto split: if_splits)

lemma atualizar_consulta_db:
  "snd (atualizar_consulta E db i req) = db
   \<or> (\<exists>n. snd (atualizar_consulta E db i req)
          = db\<lparr>linhas := map (\<lambda>r. if consulta_id r = i then r\<lparr>observacoes := n\<rparr> else r) (linhas db)\<rparr>)"
  by (auto simp: atualizar_consulta_def update_observacoes_def bind_integer_def try_bind_def Let_def
      split: sum.splits option.splits if_splits)

lemma select_by_id_bound: "i < 2 ^ 63 \<Longrightarrow> select_by_id d i = Inr (find (\<lambda>r. consulta_id r = i) (linhas d))"
  by (simp add: select_by_id_def bind_integer_def try_bind_def)

lemma select_by_id_overflow: "2 ^ 63 \<le> i \<Longrightarrow> select_by_id d i = Inl OverflowError"
  by (simp add: select_by_id_def bind_integer_def try_bind_def)

lemma select_by_id_Inr: "select_by_id d i = Inr x \<Longrightarrow> i < 2 ^ 63 \<and> find (\<lambda>r. consulta_id r = i) (linhas d) = x"
  by (auto simp: select_by_id_def bind_integer_def try_bind_def split: if_splits)

lemma atualizar_consulta_bound:
  assumes "json_or_empty req = JObj kvs"
    and "bind_text E (case map_of kvs ''observacoes'' of None \<Rightarrow> JNull | Some v \<Rightarrow> v) = Inr n"
    and "i < 2 ^ 63"
  shows "atualizar_consulta E db i req =
           (let db' = db\<lparr>linhas := map (\<lambda>r. if consulta_id r = i then r\<lparr>observacoes := n\<rparr> else r) (linhas db)\<rparr>
            in if filter (\<lambda>r. consulta_id r = i) (linhas db) = [] then ((404, Nao_encontrada), db')
               else (case find (\<lambda>r. consulta_id r = i) (linhas db) of
                       None \<Rightarrow> ((500, Nao_tratada TypeError), db')
                     | Some r \<Rightarrow> ((200, Registro (r\<lparr>observacoes := n\<rparr>)), db')))"
  using assms(3)
  by (simp add: atualizar_consulta_def assms(1,2) update_observacoes_def Let_def select_by_id_def
      bind_integer_def try_bind_def find_map_update split: option.splits)

lemma atualizar_consulta_overflow:
  assumes "json_or_empty req = JObj kvs"
    and "bind_text E (case map_of kvs ''observacoes'' of None \<Rightarrow> JNull | Some v \<Rightarrow> v) = Inr n"
    and "2 ^ 63 \<le> i"
  shows "atualizar_consulta E db i req = ((500, Nao_tratada OverflowError), db)"
  using assms(3)
  by (simp add: atualizar_consulta_def assms(1,2) update_observacoes_def bind_integer_def try_bind_def)

lemma atualizar_consulta_unbound:
  assumes "json_or_empty req = JObj kvs"
    and "bind_text E (case map_of kvs ''observacoes'' of None \<Rightarrow> JNull | Some v \<Rightarrow> v) = Inl e"
  shows "atualizar_consulta E db i req = ((500, Nao_tratada e), db)"
  by (simp add: atualizar_consulta_def assms)

text \<open>
  Claim C9, amended. For every store, identifier and request, the update leaves every
  field other than the notes of every record as it was (the records with their notes
  blanked are the same list before and after), leaves every record with another
  identifier wholly as it was, and leaves the counter of identifiers as it was; when no
  record has the identifier the store is left as it was. When the notes value can be
  bound (null, a string, a bool, a float, an integer of at most 64 bits): for an
  identifier below 2 to the power 63 with no record the reply is 404; for an
  identifier whose record the store returns (it is then below 2 to the power 63) the
  reply is 200 with that record, its notes replaced by the new value, which is also
  what the store then holds and what reading the record returns; for an identifier of
  2 to the power 63 or more the reply is 500 and the store is left as it was. When the
  notes value cannot be bound (a list, an object, an integer beyond 64 bits) the reply
  is 500 and the store is left as it was.
\<close>

theorem atualizar_consulta_frame:
  "(case atualizar_consulta E db i req of
      (reply, db') \<Rightarrow>
        map (\<lambda>r. r\<lparr>observacoes := None\<rparr>) (linhas db') = map (\<lambda>r. r\<lparr>observacoes := None\<rparr>) (linhas db)
        \<and> filter (\<lambda>r. consulta_id r \<noteq> i) (linhas db') = filter (\<lambda>r. consulta_id r \<noteq> i) (linhas db)
        \<and> seq db' = seq db
        \<and> ((\<forall>r \<in> set (linhas db). consulta_id r \<noteq> i) \<longrightarrow> db' = db)
        \<and> (\<forall>kvs n. json_or_empty req = JObj kvs
              \<and> bind_text E (case map_of kvs ''observacoes'' of None \<Rightarrow> JNull | Some v \<Rightarrow> v) = Inr n \<longrightarrow>
              (i < 2 ^ 63 \<and> (\<forall>r \<in> set (linhas db). consulta_id r \<noteq> i) \<longrightarrow>
                 reply = (404, Nao_encontrada))
              \<and> (\<forall>r. select_by_id db i = Inr (Some r) \<longrightarrow>
                    reply = (200, Registro (r\<lparr>observacoes := n\<rparr>))
                    \<and> select_by_id db' i = Inr (Some (r\<lparr>observacoes := n\<rparr>))
                    \<and> obter_consulta db' i = (200, Registro (r\<lparr>observacoes := n\<rparr>)))
              \<and> (2 ^ 63 \<le> i \<longrightarrow> reply = (500, Nao_tratada OverflowError) \<and> db' = db))
        \<and> (\<forall>kvs e. json_or_empty req = JObj kvs
              \<and> bind_text E (case map_of kvs ''observacoes'' of None \<Rightarrow> JNull | Some v \<Rightarrow> v) = Inl e \<longrightarrow>
              reply = (500, Nao_tratada e) \<and> db' = db))"
proof -
  obtain reply db' where a: "atualizar_consulta E db i req = (reply, db')"
    by (cases "atualizar_consulta E db i req") auto
  have d: "db' = db \<or> (\<exists>n. db' = db\<lparr>linhas := map (\<lambda>r. if consulta_id r = i then r\<lparr>observacoes := n\<rparr> else r) (linhas db)\<rparr>)"
    using atualizar_consulta_db [of E db i req] a by simp
  have 1: "map (\<lambda>r. r\<lparr>observacoes := None\<rparr>) (linhas db') = map (\<lambda>r. r\<lparr>observacoes := None\<rparr>) (linhas db)"
    using d by (auto simp: update_frame)
  have 2: "filter (\<lambda>r. consulta_id r \<noteq> i) (linhas db') = filter (\<lambda>r. consulta_id r \<noteq> i) (linhas db)"
    using d by (auto simp: update_others)
  have 3: "seq db' = seq db"
    using d by auto
  have 4: "(\<forall>r \<in> set (linhas db). consulta_id r \<noteq> i) \<longrightarrow> db' = db"
    using d by (auto simp: update_absent)
  have 5: "\<forall>kvs n. json_or_empty req = JObj kvs
              \<and> bind_text E (case map_of kvs ''observacoes'' of None \<Rightarrow> JNull | Some v \<Rightarrow> v) = Inr n \<longrightarrow>
              (i < 2 ^ 63 \<and> (\<forall>r \<in> set (linhas db). consulta_id r \<noteq> i) \<longrightarrow>
                 reply = (404, Nao_encontrada))
              \<and> (\<forall>r. select_by_id db i = Inr (Some r) \<longrightarrow>
                    reply = (200, Registro (r\<lparr>observacoes := n\<rparr>))
                    \<and> select_by_id db' i = Inr (Some (r\<lparr>observacoes := n\<rparr>))
                    \<and> obter_consulta db' i = (200, Registro (r\<lparr>observacoes := n\<rparr>)))
              \<and> (2 ^ 63 \<le> i \<longrightarrow> reply = (500, Nao_tratada OverflowError) \<and> db' = db)"
  proof (intro allI impI, elim conjE)
    fix kvs n
    assume j: "json_or_empty req = JObj kvs"
      and b: "bind_text E (case map_of kvs ''observacoes'' of None \<Rightarrow> JNull | Some v \<Rightarrow> v) = Inr n"
    have x: "i < 2 ^ 63 \<and> (\<forall>r \<in> set (linhas db). consulta_id r \<noteq> i) \<longrightarrow> reply = (404, Nao_encontrada)"
    proof (intro impI, elim conjE)
      assume lt: "i < 2 ^ 63" and ab: "\<forall>r \<in> set (linhas db). consulta_id r \<noteq> i"
      note u = atualizar_consulta_bound [OF j b lt, of db, unfolded a Let_def]
      show "reply = (404, Nao_encontrada)"
        using u ab by (auto simp: filter_absent)
    qed
    have y: "\<forall>r. select_by_id db i = Inr (Some r) \<longrightarrow>
                    reply = (200, Registro (r\<lparr>observacoes := n\<rparr>))
                    \<and> select_by_id db' i = Inr (Some (r\<lparr>observacoes := n\<rparr>))
                    \<and> obter_consulta db' i = (200, Registro (r\<lparr>observacoes := n\<rparr>))"
    proof (intro allI impI)
      fix r assume s0: "select_by_id db i = Inr (Some r)"
      from select_by_id_Inr [OF s0] have lt: "i < 2 ^ 63"
        and s: "find (\<lambda>r. consulta_id r = i) (linhas db) = Some r" by auto
      note u = atualizar_consulta_bound [OF j b lt, of db, unfolded a Let_def]
      from s have ne: "filter (\<lambda>r. consulta_id r = i) (linhas db) \<noteq> []"
        by (rule find_Some_filter)
      from u ne s have r: "reply = (200, Registro (r\<lparr>observacoes := n\<rparr>))"
        and d': "db' = db\<lparr>linhas := map (\<lambda>r. if consulta_id r = i then r\<lparr>observacoes := n\<rparr> else r) (linhas db)\<rparr>"
        by auto
      have "select_by_id db' i = Inr (Some (r\<lparr>observacoes := n\<rparr>))"
        using s lt unfolding d' by (simp add: select_by_id_bound find_map_update)
      with r show "reply = (200, Registro (r\<lparr>observacoes := n\<rparr>))
                    \<and> select_by_id db' i = Inr (Some (r\<lparr>observacoes := n\<rparr>))
                    \<and> obter_consulta db' i = (200, Registro (r\<lparr>observacoes := n\<rparr>))"
        by (simp add: obter_consulta_def)
    qed
    have z: "2 ^ 63 \<le> i \<longrightarrow> reply = (500, Nao_tratada OverflowError) \<and> db' = db"
      using atualizar_consulta_overflow [OF j b, of i db] a by auto
    from x y z show "(i < 2 ^ 63 \<and> (\<forall>r \<in> set (linhas db). consulta_id r \<noteq> i) \<longrightarrow>
                 reply = (404, Nao_encontrada))
              \<and> (\<forall>r. select_by_id db i = Inr (Some r) \<longrightarrow>
                    reply = (200, Registro (r\<lparr>observacoes := n\<rparr>))
                    \<and> select_by_id db' i = Inr (Some (r\<lparr>observacoes := n\<rparr>))
                    \<and> obter_consulta db' i = (200, Registro (r\<lparr>observacoes := n\<rparr>)))
              \<and> (2 ^ 63 \<le> i \<longrightarrow> reply = (500, Nao_tratada OverflowError) \<and> db' = db)"
      by blast
  qed
  have 6: "\<forall>kvs e. json_or_empty req = JObj kvs
              \<and> bind_text E (case map_of kvs ''observacoes'' of None \<Rightarrow> JNull | Some v \<Rightarrow> v) = Inl e \<longrightarrow>
              reply = (500, Nao_tratada e) \<and> db' = db"
    using atualizar_consulta_unbound [of req _ E _ db i] a by auto
  from 1 2 3 4 5 6 show ?thesis unfolding a by simp
qed

lemma select_banco3: "select_by_id banco3 2 = Inr (Some (linha 2))"
  by (simp add: select_by_id_def bind_integer_def try_bind_def banco3_def consulta_id_linha)

text \<open>
  On the store of three records: updating the notes of record 2, updating the absent
  record 7, updating the record 2 to the power 63, and updating with notes that are a
  list.
\<close>

theorem atualizar_consulta_frame_witness:
  "atualizar_consulta (mundo (rede NoResponse NoResponse NoResponse)) banco3 2
     (Some (JObj [(''observacoes'', JStr ''x'')]))
   = ((200, Registro ((linha 2)\<lparr>observacoes := Some ''x''\<rparr>)),
      \<lparr>linhas = [linha 1, (linha 2)\<lparr>observacoes := Some ''x''\<rparr>, linha 3], seq = 3\<rparr>)
   \<and> atualizar_consulta (mundo (rede NoResponse NoResponse NoResponse)) banco3 7
     (Some (JObj [(''observacoes'', JStr ''x'')]))
   = ((404, Nao_encontrada), banco3)
   \<and> atualizar_consulta (mundo (rede NoResponse NoResponse NoResponse)) banco3 (2 ^ 63)
     (Some (JObj [(''observacoes'', JStr ''x'')]))
   = ((500, Nao_tratada OverflowError), banco3)
   \<and> atualizar_consulta (mundo (rede NoResponse NoResponse NoResponse)) banco3 2
     (Some (JObj [(''observacoes'', JArr [JStr ''x''])]))
   = ((500, Nao_tratada SqliteBindError), banco3)"
proof -
  let ?E = "mundo (rede NoResponse NoResponse NoResponse)"
  let ?req = "Some (JObj [(''observacoes'', JStr ''x'')])"
  have j: "json_or_empty ?req = JObj [(''observacoes'', JStr ''x'')]"
    by (simp add: json_or_empty_def py_or_def)
  have b: "bind_text ?E (case map_of [(''observacoes'', JStr ''x'')] ''observacoes'' of
                            None \<Rightarrow> JNull | Some v \<Rightarrow> v) = Inr (Some ''x'')"
    by simp
  have absent: "\<forall>r \<in> set (linhas banco3). consulta_id r \<noteq> 7"
    by (simp add: banco3_def consulta_id_linha)
  have lt: "(7::nat) < 2 ^ 63" by simp
  obtain reply db' where a: "atualizar_consulta ?E banco3 2 ?req = (reply, db')"
    by (cases "atualizar_consulta ?E banco3 2 ?req") auto
  obtain reply7 db7 where a7: "atualizar_consulta ?E banco3 7 ?req = (reply7, db7)"
    by (cases "atualizar_consulta ?E banco3 7 ?req") auto
  obtain reply8 db8 where a8: "atualizar_consulta ?E banco3 (2 ^ 63) ?req = (reply8, db8)"
    by (cases "atualizar_consulta ?E banco3 (2 ^ 63) ?req") auto
  let ?req9 = "Some (JObj [(''observacoes'', JArr [JStr ''x''])])"
  have j9: "json_or_empty ?req9 = JObj [(''observacoes'', JArr [JStr ''x''])]"
    by (simp add: json_or_empty_def py_or_def)
  have b9: "bind_text ?E (case map_of [(''observacoes'', JArr [JStr ''x''])] ''observacoes'' of
                            None \<Rightarrow> JNull | Some v \<Rightarrow> v) = Inl SqliteBindError"
    by simp
  obtain reply9 db9 where a9: "atualizar_consulta ?E banco3 2 ?req9 = (reply9, db9)"
    by (cases "atualizar_consulta ?E banco3 2 ?req9") auto
  have "reply = (200, Registro ((linha 2)\<lparr>observacoes := Some ''x''\<rparr>))"
    using atualizar_consulta_frame [where E = ?E and db = banco3 and i = 2 and req = ?req] j b select_banco3 unfolding a by simp
  moreover have "db' = \<lparr>linhas = [linha 1, (linha 2)\<lparr>observacoes := Some ''x''\<rparr>, linha 3], seq = 3\<rparr>"
    using a by (simp add: atualizar_consulta_def j update_observacoes_def banco3_def consulta_id_linha
        select_by_id_def bind_integer_def try_bind_def)
  moreover have "reply7 = (404, Nao_encontrada) \<and> db7 = banco3"
    using atualizar_consulta_frame [where E = ?E and db = banco3 and i = 7 and req = ?req] j b absent lt unfolding a7 by simp
  moreover have "reply8 = (500, Nao_tratada OverflowError) \<and> db8 = banco3"
    using atualizar_consulta_frame [where E = ?E and db = banco3 and i = "2 ^ 63" and req = ?req] j b
    unfolding a8 by simp
  moreover have "reply9 = (500, Nao_tratada SqliteBindError) \<and> db9 = banco3"
    using atualizar_consulta_frame [where E = ?E and db = banco3 and i = 2 and req = ?req9] j9 b9
    unfolding a9 by simp
  ultimately show ?thesis using a a7 a8 a9 by simp
qed

text \<open>
  The claim as first worded fails for the identifier 2 to the power 63, which no record
  of the store of three has: the reply is 500, not 404. It fails as well for the notes
  value 10 to the power 30 on the stored record 2: the reply is 500 and the notes stay
  as they were.
\<close>

theorem atualizar_consulta_overflow_counterexample:
  "map consulta_id (linhas banco3) = [1, 2, 3]
   \<and> atualizar_consulta (mundo (rede NoResponse NoResponse NoResponse)) banco3 (2 ^ 63)
        (Some (JObj [(''observacoes'', JStr ''x'')]))
      = ((500, Nao_tratada OverflowError), banco3)
   \<and> atualizar_consulta (mundo (rede NoResponse NoResponse NoResponse)) banco3 2
        (Some (JObj [(''observacoes'', JInt (10 ^ 30))]))
      = ((500, Nao_tratada OverflowError), banco3)"
  by (simp add: atualizar_consulta_def json_or_empty_def py_or_def update_observacoes_def
      bind_integer_def try_bind_def banco3_def consulta_id_linha)


lemma update_sets_notes:
  "\<forall>r' \<in> set (map (\<lambda>r. if consulta_id r = i then r\<lparr>observacoes := n\<rparr> else r) xs).
     consulta_id r' = i \<longrightarrow> observacoes r' = n"
proof (intro ballI impI)
  fix r' assume m: "r' \<in> set (map (\<lambda>r. if consulta_id r = i then r\<lparr>observacoes := n\<rparr> else r) xs)"
    and c: "consulta_id r' = i"
  from m obtain r where r: "r' = (if consulta_id r = i then r\<lparr>observacoes := n\<rparr> else r)"
    by (auto simp only: set_map image_iff)
  show "observacoes r' = n"
  proof (cases "consulta_id r = i")
    case True
    with r show ?thesis by simp
  next
    case False
    with r c show ?thesis by simp
  qed
qed


text \<open>
  Claim C10. When the body of the update has no key \<^verbatim>\<open>observacoes\<close> (a JSON object
  without it, or a body that is absent, empty or not JSON, which is read as the empty
  object) and the record exists (reading it by its identifier returns it), the reply is
  200 and the notes of the record are overwritten with null, whatever they were.
\<close>

theorem atualizar_consulta_omitted_notes:
  assumes "json_or_empty req = JObj kvs"
    and "map_of kvs ''observacoes'' = None"
    and "select_by_id db i = Inr (Some r)"
  shows "fst (atualizar_consulta E db i req) = (200, Registro (r\<lparr>observacoes := None\<rparr>))
       \<and> select_by_id (snd (atualizar_consulta E db i req)) i = Inr (Some (r\<lparr>observacoes := None\<rparr>))
       \<and> (\<forall>r' \<in> set (linhas (snd (atualizar_consulta E db i req))).
             consulta_id r' = i \<longrightarrow> observacoes r' = None)
       \<and> json_or_empty None = JObj []"
proof -
  let ?db' = "db\<lparr>linhas := map (\<lambda>r. if consulta_id r = i then r\<lparr>observacoes := None\<rparr> else r) (linhas db)\<rparr>"
  have b: "bind_text E (case map_of kvs ''observacoes'' of None \<Rightarrow> JNull | Some v \<Rightarrow> v) = Inr None"
    by (simp only: assms(2) option.case bind_text.simps)
  from select_by_id_Inr [OF assms(3)] have lt: "i < 2 ^ 63"
    and f: "find (\<lambda>r. consulta_id r = i) (linhas db) = Some r" by auto
  have ne: "filter (\<lambda>r. consulta_id r = i) (linhas db) \<noteq> []"
    using f by (rule find_Some_filter)
  have u: "atualizar_consulta E db i req = ((200, Registro (r\<lparr>observacoes := None\<rparr>)), ?db')"
    using atualizar_consulta_bound [OF assms(1) b lt, of db] ne f by (simp add: Let_def)
  have 1: "fst (atualizar_consulta E db i req) = (200, Registro (r\<lparr>observacoes := None\<rparr>))"
    by (simp only: u fst_conv)
  have s: "snd (atualizar_consulta E db i req) = ?db'"
    by (simp only: u snd_conv)
  have 2: "select_by_id (snd (atualizar_consulta E db i req)) i = Inr (Some (r\<lparr>observacoes := None\<rparr>))"
    using f lt unfolding s by (simp add: select_by_id_bound find_map_update)
  have 3: "\<forall>r' \<in> set (linhas (snd (atualizar_consulta E db i req))).
             consulta_id r' = i \<longrightarrow> observacoes r' = None"
  proof -
    have l: "linhas ?db' = map (\<lambda>r. if consulta_id r = i then r\<lparr>observacoes := None\<rparr> else r) (linhas db)"
      by simp
    show ?thesis unfolding s l by (rule update_sets_notes)
  qed
  have 4: "json_or_empty None = JObj []"
    by (simp add: json_or_empty_def)
  from 1 2 3 4 show ?thesis by blast
qed

text \<open>
  Record 2 of the store of three has notes; an update with no body, and one with
  another key only, leave it with null notes.
\<close>

theorem atualizar_consulta_omitted_notes_witness:
  "observacoes (linha 2) = Some ''nota''
   \<and> fst (atualizar_consulta (mundo (rede NoResponse NoResponse NoResponse)) banco3 2 None)
       = (200, Registro ((linha 2)\<lparr>observacoes := None\<rparr>))
   \<and> select_by_id (snd (atualizar_consulta (mundo (rede NoResponse NoResponse NoResponse)) banco3 2 None)) 2
       = Inr (Some ((linha 2)\<lparr>observacoes := None\<rparr>))
   \<and> fst (atualizar_consulta (mundo (rede NoResponse NoResponse NoResponse)) banco3 2
            (Some (JObj [(''outro'', JStr ''x'')])))
       = (200, Registro ((linha 2)\<lparr>observacoes := None\<rparr>))"
proof -
  have j: "json_or_empty None = JObj []"
    "json_or_empty (Some (JObj [(''outro'', JStr ''x'')])) = JObj [(''outro'', JStr ''x'')]"
    by (simp_all add: json_or_empty_def py_or_def)
  have m: "map_of [] ''observacoes'' = (None :: json option)"
    "map_of [(''outro'', JStr ''x'')] ''observacoes'' = None"
    by simp_all
  have n: "observacoes (linha 2) = Some ''nota''"
    by (simp add: linha_def)
  note t1 = atualizar_consulta_omitted_notes [OF j(1) m(1) select_banco3,
      of "mundo (rede NoResponse NoResponse NoResponse)"]
  note t2 = atualizar_consulta_omitted_notes [OF j(2) m(2) select_banco3,
      of "mundo (rede NoResponse NoResponse NoResponse)"]
  from n t1 [THEN conjunct1] t1 [THEN conjunct2, THEN conjunct1] t2 [THEN conjunct1]
  show ?thesis by blast
qed

end
